theory Spec2Isabelle
  imports Complex_Main
begin

section \<open>Text\<close>

text \<open>
  A Python \<open>str\<close> is a sequence of Unicode code points, and \<open>len\<close> counts code points.
  Text is therefore a list of code points; \<open>ustr\<close> reads an ASCII literal.
  The ellipsis of \<open>_shorten\<close> is the single code point 8230, the em dash of the renderer
  is 8212.
\<close>

type_synonym pystr = "nat list"

definition ustr :: "string \<Rightarrow> pystr" where
  "ustr s = map of_char s"

text \<open>\<open>str.isspace\<close>, which is also the class \<open>\s\<close> of \<open>re\<close> on \<open>str\<close> patterns.\<close>

definition is_space :: "nat \<Rightarrow> bool" where
  "is_space c \<longleftrightarrow>
     (9 \<le> c \<and> c \<le> 13) \<or> (28 \<le> c \<and> c \<le> 32) \<or> c = 133 \<or> c = 160 \<or> c = 5760
     \<or> (8192 \<le> c \<and> c \<le> 8202) \<or> c = 8232 \<or> c = 8233 \<or> c = 8239 \<or> c = 8287
     \<or> c = 12288"

definition lstrip :: "pystr \<Rightarrow> pystr" where
  "lstrip s = dropWhile is_space s"

definition rstrip :: "pystr \<Rightarrow> pystr" where
  "rstrip s = rev (dropWhile is_space (rev s))"

definition strip :: "pystr \<Rightarrow> pystr" where
  "strip s = rstrip (lstrip s)"

text \<open>
  \<open>str.lower\<close> (Unicode 14). \<open>lower_table\<close> lists the code points from 192 on that
  lower-casing changes, in runs: from \<open>lo\<close> to \<open>hi\<close> every \<open>step\<close>-th code point moves by
  \<open>d\<close>. The dotted capital I, 304, becomes two code points. The capital sigma, 931,
  becomes the final sigma 962 when a cased character comes before it and none comes
  after it, the case-ignorable characters in between not counting, and 963 otherwise;
  \<open>cased_ranges\<close> lists the cased characters that are not case-ignorable, which are the
  only ones the scan tests for being cased.
\<close>

definition lower_table :: "(nat \<times> nat \<times> nat \<times> int) list" where
  "lower_table =
     [(192, 214, 1, 32), (216, 222, 1, 32), (256, 302, 2, 1),
      (306, 310, 2, 1), (313, 327, 2, 1), (330, 374, 2, 1),
      (376, 376, 1, - 121), (377, 381, 2, 1), (385, 385, 1, 210),
      (386, 388, 2, 1), (390, 390, 1, 206), (391, 391, 1, 1),
      (393, 394, 1, 205), (395, 395, 1, 1), (398, 398, 1, 79),
      (399, 399, 1, 202), (400, 400, 1, 203), (401, 401, 1, 1),
      (403, 403, 1, 205), (404, 404, 1, 207), (406, 406, 1, 211),
      (407, 407, 1, 209), (408, 408, 1, 1), (412, 412, 1, 211),
      (413, 413, 1, 213), (415, 415, 1, 214), (416, 420, 2, 1),
      (422, 422, 1, 218), (423, 423, 1, 1), (425, 425, 1, 218),
      (428, 428, 1, 1), (430, 430, 1, 218), (431, 431, 1, 1),
      (433, 434, 1, 217), (435, 437, 2, 1), (439, 439, 1, 219),
      (440, 440, 1, 1), (444, 444, 1, 1), (452, 452, 1, 2),
      (453, 453, 1, 1), (455, 455, 1, 2), (456, 456, 1, 1),
      (458, 458, 1, 2), (459, 475, 2, 1), (478, 494, 2, 1),
      (497, 497, 1, 2), (498, 500, 2, 1), (502, 502, 1, - 97),
      (503, 503, 1, - 56), (504, 542, 2, 1), (544, 544, 1, - 130),
      (546, 562, 2, 1), (570, 570, 1, 10795), (571, 571, 1, 1),
      (573, 573, 1, - 163), (574, 574, 1, 10792), (577, 577, 1, 1),
      (579, 579, 1, - 195), (580, 580, 1, 69), (581, 581, 1, 71),
      (582, 590, 2, 1), (880, 882, 2, 1), (886, 886, 1, 1),
      (895, 895, 1, 116), (902, 902, 1, 38), (904, 906, 1, 37),
      (908, 908, 1, 64), (910, 911, 1, 63), (913, 929, 1, 32),
      (932, 939, 1, 32), (975, 975, 1, 8), (984, 1006, 2, 1),
      (1012, 1012, 1, - 60), (1015, 1015, 1, 1), (1017, 1017, 1, - 7),
      (1018, 1018, 1, 1), (1021, 1023, 1, - 130), (1024, 1039, 1, 80),
      (1040, 1071, 1, 32), (1120, 1152, 2, 1), (1162, 1214, 2, 1),
      (1216, 1216, 1, 15), (1217, 1229, 2, 1), (1232, 1326, 2, 1),
      (1329, 1366, 1, 48), (4256, 4293, 1, 7264), (4295, 4295, 1, 7264),
      (4301, 4301, 1, 7264), (5024, 5103, 1, 38864), (5104, 5109, 1, 8),
      (7312, 7354, 1, - 3008), (7357, 7359, 1, - 3008), (7680, 7828, 2, 1),
      (7838, 7838, 1, - 7615), (7840, 7934, 2, 1), (7944, 7951, 1, - 8),
      (7960, 7965, 1, - 8), (7976, 7983, 1, - 8), (7992, 7999, 1, - 8),
      (8008, 8013, 1, - 8), (8025, 8031, 2, - 8), (8040, 8047, 1, - 8),
      (8072, 8079, 1, - 8), (8088, 8095, 1, - 8), (8104, 8111, 1, - 8),
      (8120, 8121, 1, - 8), (8122, 8123, 1, - 74), (8124, 8124, 1, - 9),
      (8136, 8139, 1, - 86), (8140, 8140, 1, - 9), (8152, 8153, 1, - 8),
      (8154, 8155, 1, - 100), (8168, 8169, 1, - 8), (8170, 8171, 1, - 112),
      (8172, 8172, 1, - 7), (8184, 8185, 1, - 128), (8186, 8187, 1, - 126),
      (8188, 8188, 1, - 9), (8486, 8486, 1, - 7517), (8490, 8490, 1, - 8383),
      (8491, 8491, 1, - 8262), (8498, 8498, 1, 28), (8544, 8559, 1, 16),
      (8579, 8579, 1, 1), (9398, 9423, 1, 26), (11264, 11311, 1, 48),
      (11360, 11360, 1, 1), (11362, 11362, 1, - 10743), (11363, 11363, 1, - 3814),
      (11364, 11364, 1, - 10727), (11367, 11371, 2, 1), (11373, 11373, 1, - 10780),
      (11374, 11374, 1, - 10749), (11375, 11375, 1, - 10783), (11376, 11376, 1, - 10782),
      (11378, 11378, 1, 1), (11381, 11381, 1, 1), (11390, 11391, 1, - 10815),
      (11392, 11490, 2, 1), (11499, 11501, 2, 1), (11506, 11506, 1, 1),
      (42560, 42604, 2, 1), (42624, 42650, 2, 1), (42786, 42798, 2, 1),
      (42802, 42862, 2, 1), (42873, 42875, 2, 1), (42877, 42877, 1, - 35332),
      (42878, 42886, 2, 1), (42891, 42891, 1, 1), (42893, 42893, 1, - 42280),
      (42896, 42898, 2, 1), (42902, 42920, 2, 1), (42922, 42922, 1, - 42308),
      (42923, 42923, 1, - 42319), (42924, 42924, 1, - 42315), (42925, 42925, 1, - 42305),
      (42926, 42926, 1, - 42308), (42928, 42928, 1, - 42258), (42929, 42929, 1, - 42282),
      (42930, 42930, 1, - 42261), (42931, 42931, 1, 928), (42932, 42946, 2, 1),
      (42948, 42948, 1, - 48), (42949, 42949, 1, - 42307), (42950, 42950, 1, - 35384),
      (42951, 42953, 2, 1), (42960, 42960, 1, 1), (42966, 42968, 2, 1),
      (42997, 42997, 1, 1), (65313, 65338, 1, 32), (66560, 66599, 1, 40),
      (66736, 66771, 1, 40), (66928, 66938, 1, 39), (66940, 66954, 1, 39),
      (66956, 66962, 1, 39), (66964, 66965, 1, 39), (68736, 68786, 1, 64),
      (71840, 71871, 1, 32), (93760, 93791, 1, 32), (125184, 125217, 1, 34)]"

definition case_ignorable_ranges :: "(nat \<times> nat) list" where
  "case_ignorable_ranges =
     [(39, 39), (46, 46), (58, 58), (94, 94), (96, 96),
      (168, 168), (173, 173), (175, 175), (180, 180), (183, 184),
      (688, 879), (884, 885), (890, 890), (900, 901), (903, 903),
      (1155, 1161), (1369, 1369), (1375, 1375), (1425, 1469), (1471, 1471),
      (1473, 1474), (1476, 1477), (1479, 1479), (1524, 1524), (1536, 1541),
      (1552, 1562), (1564, 1564), (1600, 1600), (1611, 1631), (1648, 1648),
      (1750, 1757), (1759, 1768), (1770, 1773), (1807, 1807), (1809, 1809),
      (1840, 1866), (1958, 1968), (2027, 2037), (2042, 2042), (2045, 2045),
      (2070, 2093), (2137, 2139), (2184, 2184), (2192, 2193), (2200, 2207),
      (2249, 2306), (2362, 2362), (2364, 2364), (2369, 2376), (2381, 2381),
      (2385, 2391), (2402, 2403), (2417, 2417), (2433, 2433), (2492, 2492),
      (2497, 2500), (2509, 2509), (2530, 2531), (2558, 2558), (2561, 2562),
      (2620, 2620), (2625, 2626), (2631, 2632), (2635, 2637), (2641, 2641),
      (2672, 2673), (2677, 2677), (2689, 2690), (2748, 2748), (2753, 2757),
      (2759, 2760), (2765, 2765), (2786, 2787), (2810, 2815), (2817, 2817),
      (2876, 2876), (2879, 2879), (2881, 2884), (2893, 2893), (2901, 2902),
      (2914, 2915), (2946, 2946), (3008, 3008), (3021, 3021), (3072, 3072),
      (3076, 3076), (3132, 3132), (3134, 3136), (3142, 3144), (3146, 3149),
      (3157, 3158), (3170, 3171), (3201, 3201), (3260, 3260), (3263, 3263),
      (3270, 3270), (3276, 3277), (3298, 3299), (3328, 3329), (3387, 3388),
      (3393, 3396), (3405, 3405), (3426, 3427), (3457, 3457), (3530, 3530),
      (3538, 3540), (3542, 3542), (3633, 3633), (3636, 3642), (3654, 3662),
      (3761, 3761), (3764, 3772), (3782, 3782), (3784, 3789), (3864, 3865),
      (3893, 3893), (3895, 3895), (3897, 3897), (3953, 3966), (3968, 3972),
      (3974, 3975), (3981, 3991), (3993, 4028), (4038, 4038), (4141, 4144),
      (4146, 4151), (4153, 4154), (4157, 4158), (4184, 4185), (4190, 4192),
      (4209, 4212), (4226, 4226), (4229, 4230), (4237, 4237), (4253, 4253),
      (4348, 4348), (4957, 4959), (5906, 5908), (5938, 5939), (5970, 5971),
      (6002, 6003), (6068, 6069), (6071, 6077), (6086, 6086), (6089, 6099),
      (6103, 6103), (6109, 6109), (6155, 6159), (6211, 6211), (6277, 6278),
      (6313, 6313), (6432, 6434), (6439, 6440), (6450, 6450), (6457, 6459),
      (6679, 6680), (6683, 6683), (6742, 6742), (6744, 6750), (6752, 6752),
      (6754, 6754), (6757, 6764), (6771, 6780), (6783, 6783), (6823, 6823),
      (6832, 6862), (6912, 6915), (6964, 6964), (6966, 6970), (6972, 6972),
      (6978, 6978), (7019, 7027), (7040, 7041), (7074, 7077), (7080, 7081),
      (7083, 7085), (7142, 7142), (7144, 7145), (7149, 7149), (7151, 7153),
      (7212, 7219), (7222, 7223), (7288, 7293), (7376, 7378), (7380, 7392),
      (7394, 7400), (7405, 7405), (7412, 7412), (7416, 7417), (7468, 7530),
      (7544, 7544), (7579, 7679), (8125, 8125), (8127, 8129), (8141, 8143),
      (8157, 8159), (8173, 8175), (8189, 8190), (8203, 8207), (8216, 8217),
      (8228, 8228), (8231, 8231), (8234, 8238), (8288, 8292), (8294, 8303),
      (8305, 8305), (8319, 8319), (8336, 8348), (8400, 8432), (11388, 11389),
      (11503, 11505), (11631, 11631), (11647, 11647), (11744, 11775), (11823, 11823),
      (12293, 12293), (12330, 12333), (12337, 12341), (12347, 12347), (12441, 12446),
      (12540, 12542), (40981, 40981), (42232, 42237), (42508, 42508), (42607, 42610),
      (42612, 42621), (42623, 42623), (42652, 42655), (42736, 42737), (42752, 42785),
      (42864, 42864), (42888, 42890), (42994, 42996), (43000, 43001), (43010, 43010),
      (43014, 43014), (43019, 43019), (43045, 43046), (43052, 43052), (43204, 43205),
      (43232, 43249), (43263, 43263), (43302, 43309), (43335, 43345), (43392, 43394),
      (43443, 43443), (43446, 43449), (43452, 43453), (43471, 43471), (43493, 43494),
      (43561, 43566), (43569, 43570), (43573, 43574), (43587, 43587), (43596, 43596),
      (43632, 43632), (43644, 43644), (43696, 43696), (43698, 43700), (43703, 43704),
      (43710, 43711), (43713, 43713), (43741, 43741), (43756, 43757), (43763, 43764),
      (43766, 43766), (43867, 43871), (43881, 43883), (44005, 44005), (44008, 44008),
      (44013, 44013), (64286, 64286), (64434, 64450), (65024, 65039), (65043, 65043),
      (65056, 65071), (65106, 65106), (65109, 65109), (65279, 65279), (65287, 65287),
      (65294, 65294), (65306, 65306), (65342, 65342), (65344, 65344), (65392, 65392),
      (65438, 65439), (65507, 65507), (65529, 65531), (66045, 66045), (66272, 66272),
      (66422, 66426), (67456, 67461), (67463, 67504), (67506, 67514), (68097, 68099),
      (68101, 68102), (68108, 68111), (68152, 68154), (68159, 68159), (68325, 68326),
      (68900, 68903), (69291, 69292), (69446, 69456), (69506, 69509), (69633, 69633),
      (69688, 69702), (69744, 69744), (69747, 69748), (69759, 69761), (69811, 69814),
      (69817, 69818), (69821, 69821), (69826, 69826), (69837, 69837), (69888, 69890),
      (69927, 69931), (69933, 69940), (70003, 70003), (70016, 70017), (70070, 70078),
      (70089, 70092), (70095, 70095), (70191, 70193), (70196, 70196), (70198, 70199),
      (70206, 70206), (70367, 70367), (70371, 70378), (70400, 70401), (70459, 70460),
      (70464, 70464), (70502, 70508), (70512, 70516), (70712, 70719), (70722, 70724),
      (70726, 70726), (70750, 70750), (70835, 70840), (70842, 70842), (70847, 70848),
      (70850, 70851), (71090, 71093), (71100, 71101), (71103, 71104), (71132, 71133),
      (71219, 71226), (71229, 71229), (71231, 71232), (71339, 71339), (71341, 71341),
      (71344, 71349), (71351, 71351), (71453, 71455), (71458, 71461), (71463, 71467),
      (71727, 71735), (71737, 71738), (71995, 71996), (71998, 71998), (72003, 72003),
      (72148, 72151), (72154, 72155), (72160, 72160), (72193, 72202), (72243, 72248),
      (72251, 72254), (72263, 72263), (72273, 72278), (72281, 72283), (72330, 72342),
      (72344, 72345), (72752, 72758), (72760, 72765), (72767, 72767), (72850, 72871),
      (72874, 72880), (72882, 72883), (72885, 72886), (73009, 73014), (73018, 73018),
      (73020, 73021), (73023, 73029), (73031, 73031), (73104, 73105), (73109, 73109),
      (73111, 73111), (73459, 73460), (78896, 78904), (92912, 92916), (92976, 92982),
      (92992, 92995), (94031, 94031), (94095, 94111), (94176, 94177), (94179, 94180),
      (110576, 110579), (110581, 110587), (110589, 110590), (113821, 113822), (113824, 113827),
      (118528, 118573), (118576, 118598), (119143, 119145), (119155, 119170), (119173, 119179),
      (119210, 119213), (119362, 119364), (121344, 121398), (121403, 121452), (121461, 121461),
      (121476, 121476), (121499, 121503), (121505, 121519), (122880, 122886), (122888, 122904),
      (122907, 122913), (122915, 122916), (122918, 122922), (123184, 123197), (123566, 123566),
      (123628, 123631), (125136, 125142), (125252, 125259), (127995, 127999), (917505, 917505),
      (917536, 917631), (917760, 917999)]"

definition cased_ranges :: "(nat \<times> nat) list" where
  "cased_ranges =
     [(65, 90), (97, 122), (170, 170), (181, 181), (186, 186),
      (192, 214), (216, 246), (248, 442), (444, 447), (452, 659),
      (661, 687), (880, 883), (886, 887), (891, 893), (895, 895),
      (902, 902), (904, 906), (908, 908), (910, 929), (931, 1013),
      (1015, 1153), (1162, 1327), (1329, 1366), (1376, 1416), (4256, 4293),
      (4295, 4295), (4301, 4301), (4304, 4346), (4349, 4351), (5024, 5109),
      (5112, 5117), (7296, 7304), (7312, 7354), (7357, 7359), (7424, 7467),
      (7531, 7543), (7545, 7578), (7680, 7957), (7960, 7965), (7968, 8005),
      (8008, 8013), (8016, 8023), (8025, 8025), (8027, 8027), (8029, 8029),
      (8031, 8061), (8064, 8116), (8118, 8124), (8126, 8126), (8130, 8132),
      (8134, 8140), (8144, 8147), (8150, 8155), (8160, 8172), (8178, 8180),
      (8182, 8188), (8450, 8450), (8455, 8455), (8458, 8467), (8469, 8469),
      (8473, 8477), (8484, 8484), (8486, 8486), (8488, 8488), (8490, 8493),
      (8495, 8500), (8505, 8505), (8508, 8511), (8517, 8521), (8526, 8526),
      (8544, 8575), (8579, 8580), (9398, 9449), (11264, 11387), (11390, 11492),
      (11499, 11502), (11506, 11507), (11520, 11557), (11559, 11559), (11565, 11565),
      (42560, 42605), (42624, 42651), (42786, 42863), (42865, 42887), (42891, 42894),
      (42896, 42954), (42960, 42961), (42963, 42963), (42965, 42969), (42997, 42998),
      (43002, 43002), (43824, 43866), (43872, 43880), (43888, 43967), (64256, 64262),
      (64275, 64279), (65313, 65338), (65345, 65370), (66560, 66639), (66736, 66771),
      (66776, 66811), (66928, 66938), (66940, 66954), (66956, 66962), (66964, 66965),
      (66967, 66977), (66979, 66993), (66995, 67001), (67003, 67004), (68736, 68786),
      (68800, 68850), (71840, 71903), (93760, 93823), (119808, 119892), (119894, 119964),
      (119966, 119967), (119970, 119970), (119973, 119974), (119977, 119980), (119982, 119993),
      (119995, 119995), (119997, 120003), (120005, 120069), (120071, 120074), (120077, 120084),
      (120086, 120092), (120094, 120121), (120123, 120126), (120128, 120132), (120134, 120134),
      (120138, 120144), (120146, 120485), (120488, 120512), (120514, 120538), (120540, 120570),
      (120572, 120596), (120598, 120628), (120630, 120654), (120656, 120686), (120688, 120712),
      (120714, 120744), (120746, 120770), (120772, 120779), (122624, 122633), (122635, 122654),
      (125184, 125251), (127280, 127305), (127312, 127337), (127344, 127369)]"

definition in_ranges :: "(nat \<times> nat) list \<Rightarrow> nat \<Rightarrow> bool" where
  "in_ranges rs c = list_ex (\<lambda>(lo, hi). lo \<le> c \<and> c \<le> hi) rs"

definition lower_cp :: "nat \<Rightarrow> pystr" where
  "lower_cp c =
     (if c < 192 then (if 65 \<le> c \<and> c \<le> 90 then [c + 32] else [c])
      else if c = 304 then [105, 775]
      else case List.find (\<lambda>(lo, hi, step, d). lo \<le> c \<and> c \<le> hi \<and> (c - lo) mod step = 0)
                  lower_table of
             None \<Rightarrow> [c]
           | Some (lo, hi, step, d) \<Rightarrow> [nat (int c + d)])"

definition final_sigma :: "pystr \<Rightarrow> pystr \<Rightarrow> bool" where
  "final_sigma passed coming =
     (case dropWhile (in_ranges case_ignorable_ranges) passed of
        [] \<Rightarrow> False
      | b # bs \<Rightarrow>
          in_ranges cased_ranges b
          \<and> (case dropWhile (in_ranges case_ignorable_ranges) coming of
                [] \<Rightarrow> True
              | a # rest \<Rightarrow> \<not> in_ranges cased_ranges a))"

text \<open>\<open>lower_from passed s\<close>: \<open>passed\<close> holds the characters already passed, the nearest first.\<close>

fun lower_from :: "pystr \<Rightarrow> pystr \<Rightarrow> pystr" where
  "lower_from passed [] = []"
| "lower_from passed (c # cs) =
     (if c = 931 then [if final_sigma passed cs then 962 else 963] else lower_cp c)
     @ lower_from (c # passed) cs"

definition py_lower :: "pystr \<Rightarrow> pystr" where
  "py_lower s = lower_from [] s"

text \<open>
  \<open>str.upper\<close> (Unicode 14) works code point by code point. \<open>upper_special\<close> lists the
  code points that become several, and \<open>upper_table\<close> the others from 181 on that
  upper-casing changes, in runs as above.
\<close>

definition upper_table :: "(nat \<times> nat \<times> nat \<times> int) list" where
  "upper_table =
     [(181, 181, 1, 743), (224, 246, 1, - 32), (248, 254, 1, - 32), (255, 255, 1, 121),
      (257, 303, 2, - 1), (305, 305, 1, - 232), (307, 311, 2, - 1), (314, 328, 2, - 1),
      (331, 375, 2, - 1), (378, 382, 2, - 1), (383, 383, 1, - 300), (384, 384, 1, 195),
      (387, 389, 2, - 1), (392, 392, 1, - 1), (396, 396, 1, - 1), (402, 402, 1, - 1),
      (405, 405, 1, 97), (409, 409, 1, - 1), (410, 410, 1, 163), (414, 414, 1, 130),
      (417, 421, 2, - 1), (424, 424, 1, - 1), (429, 429, 1, - 1), (432, 432, 1, - 1),
      (436, 438, 2, - 1), (441, 441, 1, - 1), (445, 445, 1, - 1), (447, 447, 1, 56),
      (453, 453, 1, - 1), (454, 454, 1, - 2), (456, 456, 1, - 1), (457, 457, 1, - 2),
      (459, 459, 1, - 1), (460, 460, 1, - 2), (462, 476, 2, - 1), (477, 477, 1, - 79),
      (479, 495, 2, - 1), (498, 498, 1, - 1), (499, 499, 1, - 2), (501, 501, 1, - 1),
      (505, 543, 2, - 1), (547, 563, 2, - 1), (572, 572, 1, - 1), (575, 576, 1, 10815),
      (578, 578, 1, - 1), (583, 591, 2, - 1), (592, 592, 1, 10783), (593, 593, 1, 10780),
      (594, 594, 1, 10782), (595, 595, 1, - 210), (596, 596, 1, - 206),
      (598, 599, 1, - 205), (601, 601, 1, - 202), (603, 603, 1, - 203),
      (604, 604, 1, 42319), (608, 608, 1, - 205), (609, 609, 1, 42315),
      (611, 611, 1, - 207), (613, 613, 1, 42280), (614, 614, 1, 42308),
      (616, 616, 1, - 209), (617, 617, 1, - 211), (618, 618, 1, 42308),
      (619, 619, 1, 10743), (620, 620, 1, 42305), (623, 623, 1, - 211),
      (625, 625, 1, 10749), (626, 626, 1, - 213), (629, 629, 1, - 214),
      (637, 637, 1, 10727), (640, 640, 1, - 218), (642, 642, 1, 42307),
      (643, 643, 1, - 218), (647, 647, 1, 42282), (648, 648, 1, - 218), (649, 649, 1, - 69),
      (650, 651, 1, - 217), (652, 652, 1, - 71), (658, 658, 1, - 219), (669, 669, 1, 42261),
      (670, 670, 1, 42258), (837, 837, 1, 84), (881, 883, 2, - 1), (887, 887, 1, - 1),
      (891, 893, 1, 130), (940, 940, 1, - 38), (941, 943, 1, - 37), (945, 961, 1, - 32),
      (962, 962, 1, - 31), (963, 971, 1, - 32), (972, 972, 1, - 64), (973, 974, 1, - 63),
      (976, 976, 1, - 62), (977, 977, 1, - 57), (981, 981, 1, - 47), (982, 982, 1, - 54),
      (983, 983, 1, - 8), (985, 1007, 2, - 1), (1008, 1008, 1, - 86), (1009, 1009, 1, - 80),
      (1010, 1010, 1, 7), (1011, 1011, 1, - 116), (1013, 1013, 1, - 96),
      (1016, 1016, 1, - 1), (1019, 1019, 1, - 1), (1072, 1103, 1, - 32),
      (1104, 1119, 1, - 80), (1121, 1153, 2, - 1), (1163, 1215, 2, - 1),
      (1218, 1230, 2, - 1), (1231, 1231, 1, - 15), (1233, 1327, 2, - 1),
      (1377, 1414, 1, - 48), (4304, 4346, 1, 3008), (4349, 4351, 1, 3008),
      (5112, 5117, 1, - 8), (7296, 7296, 1, - 6254), (7297, 7297, 1, - 6253),
      (7298, 7298, 1, - 6244), (7299, 7300, 1, - 6242), (7301, 7301, 1, - 6243),
      (7302, 7302, 1, - 6236), (7303, 7303, 1, - 6181), (7304, 7304, 1, 35266),
      (7545, 7545, 1, 35332), (7549, 7549, 1, 3814), (7566, 7566, 1, 35384),
      (7681, 7829, 2, - 1), (7835, 7835, 1, - 59), (7841, 7935, 2, - 1), (7936, 7943, 1, 8),
      (7952, 7957, 1, 8), (7968, 7975, 1, 8), (7984, 7991, 1, 8), (8000, 8005, 1, 8),
      (8017, 8023, 2, 8), (8032, 8039, 1, 8), (8048, 8049, 1, 74), (8050, 8053, 1, 86),
      (8054, 8055, 1, 100), (8056, 8057, 1, 128), (8058, 8059, 1, 112),
      (8060, 8061, 1, 126), (8112, 8113, 1, 8), (8126, 8126, 1, - 7205), (8144, 8145, 1, 8),
      (8160, 8161, 1, 8), (8165, 8165, 1, 7), (8526, 8526, 1, - 28), (8560, 8575, 1, - 16),
      (8580, 8580, 1, - 1), (9424, 9449, 1, - 26), (11312, 11359, 1, - 48),
      (11361, 11361, 1, - 1), (11365, 11365, 1, - 10795), (11366, 11366, 1, - 10792),
      (11368, 11372, 2, - 1), (11379, 11379, 1, - 1), (11382, 11382, 1, - 1),
      (11393, 11491, 2, - 1), (11500, 11502, 2, - 1), (11507, 11507, 1, - 1),
      (11520, 11557, 1, - 7264), (11559, 11559, 1, - 7264), (11565, 11565, 1, - 7264),
      (42561, 42605, 2, - 1), (42625, 42651, 2, - 1), (42787, 42799, 2, - 1),
      (42803, 42863, 2, - 1), (42874, 42876, 2, - 1), (42879, 42887, 2, - 1),
      (42892, 42892, 1, - 1), (42897, 42899, 2, - 1), (42900, 42900, 1, 48),
      (42903, 42921, 2, - 1), (42933, 42947, 2, - 1), (42952, 42954, 2, - 1),
      (42961, 42961, 1, - 1), (42967, 42969, 2, - 1), (42998, 42998, 1, - 1),
      (43859, 43859, 1, - 928), (43888, 43967, 1, - 38864), (65345, 65370, 1, - 32),
      (66600, 66639, 1, - 40), (66776, 66811, 1, - 40), (66967, 67003, 2, - 39),
      (66968, 66977, 1, - 39), (66980, 66993, 1, - 39), (66996, 67001, 1, - 39),
      (67004, 67004, 1, - 39), (68800, 68850, 1, - 64), (71872, 71903, 1, - 32),
      (93792, 93823, 1, - 32), (125218, 125251, 1, - 34)]"

definition upper_special :: "(nat \<times> pystr) list" where
  "upper_special =
     [(223, [83, 83]), (329, [700, 78]), (496, [74, 780]), (912, [921, 776, 769]),
      (944, [933, 776, 769]), (1415, [1333, 1362]), (7830, [72, 817]), (7831, [84, 776]),
      (7832, [87, 778]), (7833, [89, 778]), (7834, [65, 702]), (8016, [933, 787]),
      (8018, [933, 787, 768]), (8020, [933, 787, 769]), (8022, [933, 787, 834]),
      (8064, [7944, 921]), (8065, [7945, 921]), (8066, [7946, 921]), (8067, [7947, 921]),
      (8068, [7948, 921]), (8069, [7949, 921]), (8070, [7950, 921]), (8071, [7951, 921]),
      (8072, [7944, 921]), (8073, [7945, 921]), (8074, [7946, 921]), (8075, [7947, 921]),
      (8076, [7948, 921]), (8077, [7949, 921]), (8078, [7950, 921]), (8079, [7951, 921]),
      (8080, [7976, 921]), (8081, [7977, 921]), (8082, [7978, 921]), (8083, [7979, 921]),
      (8084, [7980, 921]), (8085, [7981, 921]), (8086, [7982, 921]), (8087, [7983, 921]),
      (8088, [7976, 921]), (8089, [7977, 921]), (8090, [7978, 921]), (8091, [7979, 921]),
      (8092, [7980, 921]), (8093, [7981, 921]), (8094, [7982, 921]), (8095, [7983, 921]),
      (8096, [8040, 921]), (8097, [8041, 921]), (8098, [8042, 921]), (8099, [8043, 921]),
      (8100, [8044, 921]), (8101, [8045, 921]), (8102, [8046, 921]), (8103, [8047, 921]),
      (8104, [8040, 921]), (8105, [8041, 921]), (8106, [8042, 921]), (8107, [8043, 921]),
      (8108, [8044, 921]), (8109, [8045, 921]), (8110, [8046, 921]), (8111, [8047, 921]),
      (8114, [8122, 921]), (8115, [913, 921]), (8116, [902, 921]), (8118, [913, 834]),
      (8119, [913, 834, 921]), (8124, [913, 921]), (8130, [8138, 921]), (8131, [919, 921]),
      (8132, [905, 921]), (8134, [919, 834]), (8135, [919, 834, 921]), (8140, [919, 921]),
      (8146, [921, 776, 768]), (8147, [921, 776, 769]), (8150, [921, 834]),
      (8151, [921, 776, 834]), (8162, [933, 776, 768]), (8163, [933, 776, 769]),
      (8164, [929, 787]), (8166, [933, 834]), (8167, [933, 776, 834]), (8178, [8186, 921]),
      (8179, [937, 921]), (8180, [911, 921]), (8182, [937, 834]), (8183, [937, 834, 921]),
      (8188, [937, 921]), (64256, [70, 70]), (64257, [70, 73]), (64258, [70, 76]),
      (64259, [70, 70, 73]), (64260, [70, 70, 76]), (64261, [83, 84]), (64262, [83, 84]),
      (64275, [1348, 1350]), (64276, [1348, 1333]), (64277, [1348, 1339]),
      (64278, [1358, 1350]), (64279, [1348, 1341])]"

definition upper_cp :: "nat \<Rightarrow> pystr" where
  "upper_cp c =
     (if c < 181 then (if 97 \<le> c \<and> c \<le> 122 then [c - 32] else [c])
      else case map_of upper_special c of
             Some u \<Rightarrow> u
           | None \<Rightarrow>
               (case List.find (\<lambda>(lo, hi, step, d). lo \<le> c \<and> c \<le> hi \<and> (c - lo) mod step = 0)
                       upper_table of
                  None \<Rightarrow> [c]
                | Some (lo, hi, step, d) \<Rightarrow> [nat (int c + d)]))"

definition py_upper :: "pystr \<Rightarrow> pystr" where
  "py_upper s = concat (map upper_cp s)"

text \<open>\<open>w in t\<close> on strings: \<open>w\<close> occurs in \<open>t\<close> as a contiguous run.\<close>

fun contains :: "pystr \<Rightarrow> pystr \<Rightarrow> bool" where
  "contains [] w = (w = [])"
| "contains (c # cs) w = (take (length w) (c # cs) = w \<or> contains cs w)"

text \<open>\<open>s[:n]\<close> for an integer \<open>n\<close>: a negative bound counts from the end.\<close>

definition py_prefix :: "int \<Rightarrow> pystr \<Rightarrow> pystr" where
  "py_prefix n s = (if 0 \<le> n then take (nat n) s else take (length s - nat (- n)) s)"

text \<open>
  \<open>str.splitlines\<close>: the line boundaries are LF, VT, FF, CR, CR LF, FS, GS, RS, NEL, LS and
  PS; there is no empty last line.
\<close>

definition is_linebreak :: "nat \<Rightarrow> bool" where
  "is_linebreak c \<longleftrightarrow>
     (10 \<le> c \<and> c \<le> 13) \<or> (28 \<le> c \<and> c \<le> 30) \<or> c = 133 \<or> c = 8232 \<or> c = 8233"

fun splitlines_from :: "pystr \<Rightarrow> pystr \<Rightarrow> pystr list" where
  "splitlines_from cur [] = (if cur = [] then [] else [cur])"
| "splitlines_from cur (c # cs) =
     (if c = 13 then
        (case cs of
           [] \<Rightarrow> [cur]
         | d # ds \<Rightarrow> if d = 10 then cur # splitlines_from [] ds
                    else cur # splitlines_from [] (d # ds))
      else if is_linebreak c then cur # splitlines_from [] cs
      else splitlines_from (cur @ [c]) cs)"

definition splitlines :: "pystr \<Rightarrow> pystr list" where
  "splitlines s = splitlines_from [] s"

section \<open>Python values\<close>

text \<open>
  What \<open>json.loads\<close> can return, and what a dictionary of type \<open>Dict[str, Any]\<close> can
  hold. A finite float is written as the rational it denotes. A dictionary is the list of
  its items in insertion order; \<open>map_of\<close> looks a key up.
\<close>

datatype pyval =
    PNone
  | PBool bool
  | PInt int
  | PFloat rat
  | PStr pystr
  | PList "pyval list"
  | PDict "(pystr \<times> pyval) list"

datatype error =
    AttributeError
  | OSError
  | UnicodeEncodeError
  | GenerationError

fun truthy :: "pyval \<Rightarrow> bool" where
  "truthy PNone = False"
| "truthy (PBool b) = b"
| "truthy (PInt i) = (i \<noteq> 0)"
| "truthy (PFloat r) = (r \<noteq> 0)"
| "truthy (PStr s) = (s \<noteq> [])"
| "truthy (PList xs) = (xs \<noteq> [])"
| "truthy (PDict kvs) = (kvs \<noteq> [])"

text \<open>\<open>a or b\<close>.\<close>

definition py_or :: "pyval \<Rightarrow> pyval \<Rightarrow> pyval" where
  "py_or a b = (if truthy a then a else b)"

text \<open>\<open>d.get(k)\<close> and \<open>d.get(k, dflt)\<close> on a dictionary.\<close>

definition dict_get :: "(pystr \<times> pyval) list \<Rightarrow> pystr \<Rightarrow> pyval" where
  "dict_get d k = (case map_of d k of None \<Rightarrow> PNone | Some v \<Rightarrow> v)"

definition dict_get_default :: "(pystr \<times> pyval) list \<Rightarrow> pystr \<Rightarrow> pyval \<Rightarrow> pyval" where
  "dict_get_default d k dflt = (case map_of d k of None \<Rightarrow> dflt | Some v \<Rightarrow> v)"

text \<open>
  \<open>d[k] = v\<close>: a key already present keeps its place and takes the new value, a new key
  goes to the end. A dictionary comprehension stores its items one after the other.
\<close>

fun dict_set :: "('k \<times> 'v) list \<Rightarrow> 'k \<Rightarrow> 'v \<Rightarrow> ('k \<times> 'v) list" where
  "dict_set [] k v = [(k, v)]"
| "dict_set ((k', v') # d) k v =
     (if k' = k then (k', v) # d else (k', v') # dict_set d k v)"

definition dict_comp :: "('k \<Rightarrow> 'v) \<Rightarrow> 'k list \<Rightarrow> ('k \<times> 'v) list" where
  "dict_comp f ks = foldl (\<lambda>d k. dict_set d k (f k)) [] ks"

section \<open>Utilities of the summarizer\<close>

definition shorten :: "pystr \<Rightarrow> int \<Rightarrow> pystr" where
  "shorten s n =
     (if s = [] then []
      else let s' = strip s
           in if int (length s') \<le> n then s' else rstrip (py_prefix n s') @ [8230])"

definition cap_text :: "pystr \<Rightarrow> int \<Rightarrow> pystr" where
  "cap_text s max_len =
     (if s = [] then []
      else let s' = strip s
           in if int (length s') \<le> max_len then s' else rstrip (py_prefix max_len s') @ [8230])"

text \<open>
  The principles file as \<open>_read_principles\<close> finds it: missing (\<open>FileNotFoundError\<close>,
  which the function catches), readable, \<open>Content\<close> with the text that \<open>f.read()\<close>
  returns, or failing in another way when
  opened or decoded (any other \<open>OSError\<close> or a \<open>UnicodeDecodeError\<close>, which the function
  lets through). The warnings it prints are left out.
\<close>

datatype file_state = Missing | Content pystr | Unreadable

definition read_principles :: "file_state \<Rightarrow> error + pystr" where
  "read_principles f =
     (case f of
        Missing \<Rightarrow> Inr []
      | Content text \<Rightarrow> Inr (strip text)
      | Unreadable \<Rightarrow> Inl OSError)"

section \<open>Principle names\<close>

text \<open>
  The decimal digits \<open>\d\<close> of \<open>re\<close> on a \<open>str\<close> pattern (Unicode 14): runs of ten from
  each of these zeros, and the fifty mathematical digits from 120782.
\<close>

definition digit_zeros :: "nat list" where
  "digit_zeros =
     [48, 1632, 1776, 1984, 2406, 2534, 2662, 2790, 2918, 3046, 3174, 3302, 3430, 3558,
      3664, 3792, 3872, 4160, 4240, 6112, 6160, 6470, 6608, 6784, 6800, 6992, 7088, 7232,
      7248, 42528, 43216, 43264, 43472, 43504, 43600, 44016, 65296, 66720, 68912, 69734,
      69872, 69942, 70096, 70384, 70736, 70864, 71248, 71360, 71472, 71904, 72016, 72784,
      73040, 73120, 92768, 92864, 93008, 120782, 120792, 120802, 120812, 120822, 123200,
      123632, 125264, 130032]"

definition is_digit :: "nat \<Rightarrow> bool" where
  "is_digit c = list_ex (\<lambda>z. z \<le> c \<and> c < z + 10) digit_zeros"

text \<open>
  \<open>re.match(r"\s*(?:[-*]|\d+\.)\s*(.+)", line)\<close> followed by \<open>m.group(1).strip()\<close>, on a
  line of \<open>splitlines\<close> (which holds no line feed, so \<open>.\<close> matches each of its
  characters). The leading \<open>\s*\<close> takes all the leading white space, since no white space
  starts a marker. \<open>list_marker\<close> gives what follows the marker: \<open>-\<close>, \<open>*\<close>, or all the
  digits there are and a full stop. The rest must hold one character at least; the group
  is the rest without its leading white space, or its last character when it is blank,
  and stripping either gives the stripped rest.
\<close>

definition list_marker :: "pystr \<Rightarrow> pystr option" where
  "list_marker r =
     (case r of
        [] \<Rightarrow> None
      | c # cs \<Rightarrow>
          if c = 45 \<or> c = 42 then Some cs
          else if is_digit c then
            (case dropWhile is_digit cs of
               [] \<Rightarrow> None
             | d # ds \<Rightarrow> if d = 46 then Some ds else None)
          else None)"

definition principle_of_line :: "pystr \<Rightarrow> pystr option" where
  "principle_of_line line =
     (case list_marker (lstrip line) of
        None \<Rightarrow> None
      | Some rest \<Rightarrow> if rest = [] then None else Some (strip rest))"

definition principle_names :: "pystr \<Rightarrow> pystr list" where
  "principle_names principles_md =
     List.map_filter principle_of_line
       (if principles_md = [] then [] else splitlines principles_md)"

section \<open>Coercion\<close>

text \<open>
  The answers of a session: a dictionary whose values are strings or \<open>None\<close>.
  \<open>answers.get(k)\<close> gives \<open>None\<close> for a missing key as well.
\<close>

type_synonym answers = "(pystr \<times> pystr option) list"

definition answers_get :: "answers \<Rightarrow> pystr \<Rightarrow> pystr option" where
  "answers_get a k = (case map_of a k of None \<Rightarrow> None | Some v \<Rightarrow> v)"

fun pick :: "answers \<Rightarrow> pystr list \<Rightarrow> pystr" where
  "pick a [] = []"
| "pick a (k # ks) =
     (case answers_get a k of
        None \<Rightarrow> pick a ks
      | Some v \<Rightarrow> if v \<noteq> [] then v else pick a ks)"

definition readiness_inference :: "pystr \<Rightarrow> pystr" where
  "readiness_inference readiness_text =
     (if readiness_text = [] then ustr ''unknown''
      else let t = py_lower readiness_text
           in if list_ex (contains t) [ustr ''immediate'', ustr ''ready'', ustr ''now'']
              then ustr ''ready_now''
              else if list_ex (contains t)
                        [ustr ''week'', ustr ''month'', ustr '' from '', ustr ''start '']
              then ustr ''date''
              else if list_ex (contains t)
                        [ustr ''prep'', ustr ''support'', ustr ''refresh'', ustr ''not ready'']
              then ustr ''needs_prep''
              else ustr ''unknown'')"

definition suitability_heuristic :: "answers \<Rightarrow> pystr" where
  "suitability_heuristic a =
     (let mot = pick a [ustr ''why_lunartech'', ustr ''motivation''];
          exp = pick a [ustr ''experience'']
      in if 120 < length mot \<or> 120 < length exp then ustr ''strong''
         else if 40 < length mot \<or> 40 < length exp then ustr ''average''
         else ustr ''weak'')"

definition coerce_suitability :: "pyval \<Rightarrow> answers \<Rightarrow> pystr" where
  "coerce_suitability v a =
     (case v of
        PStr s \<Rightarrow>
          if s \<in> set [ustr ''strong'', ustr ''average'', ustr ''weak''] then s
          else suitability_heuristic a
      | _ \<Rightarrow> suitability_heuristic a)"

text \<open>The five semantic keys, each with the answer keys \<open>pick\<close> tries for it, in order.\<close>

definition semantic_keys :: "(pystr \<times> pystr list) list" where
  "semantic_keys =
     [(ustr ''background'', [ustr ''background'', ustr ''full_name_background'']),
      (ustr ''why_lunartech'', [ustr ''why_lunartech'', ustr ''motivation'']),
      (ustr ''experience'', [ustr ''experience'']),
      (ustr ''future_goals'', [ustr ''future_goals'', ustr ''goals'']),
      (ustr ''readiness'', [ustr ''readiness''])]"

record structured =
  raw_answers :: "(pystr \<times> pystr) list"
  summary_notes :: "(pystr \<times> pyval) list"
  evaluation :: pyval
  suitability :: pystr
  readiness_flag :: pyval
  principles_alignment :: "(pystr \<times> pyval) list"

text \<open>
  \<open>_coerce_schema\<close>. Every \<open>.get\<close> is an attribute of a dictionary only: on \<open>raw\<close>, on
  a truthy \<open>notes\<close> and on a truthy \<open>principles_alignment\<close> of another type it raises
  \<open>AttributeError\<close>, the last one when the comprehension reaches its first name.
  The steps fail in the order of the source: the notes, the principles file, the
  alignment.
\<close>

definition coerce_schema :: "file_state \<Rightarrow> pyval \<Rightarrow> answers \<Rightarrow> error + structured" where
  "coerce_schema pf raw a =
     (case raw of
        PDict kvs \<Rightarrow>
          (case py_or (dict_get kvs (ustr ''notes'')) (PDict []) of
             PDict nkv \<Rightarrow>
               (let readiness_flag = readiness_inference (pick a [ustr ''readiness'']);
                    suitability = coerce_suitability (dict_get kvs (ustr ''suitability'')) a;
                    ra = map (\<lambda>(k, ks). (k, pick a ks)) semantic_keys;
                    ns = map (\<lambda>(k, ks). (k, py_or (dict_get nkv k) (PStr (shorten (pick a ks) 220))))
                           semantic_keys;
                    ev = py_or (dict_get kvs (ustr ''evaluation''))
                           (PStr (ustr ''Automated notes generated; consider human review for final decision.''));
                    rf = py_or (dict_get kvs (ustr ''readiness_flag'')) (PStr readiness_flag)
                in case read_principles pf of
                     Inl e \<Rightarrow> Inl e
                   | Inr principles_md \<Rightarrow>
                       (let names = principle_names principles_md
                        in case py_or (dict_get kvs (ustr ''principles_alignment'')) (PDict []) of
                             PDict pa \<Rightarrow>
                               Inr \<lparr>raw_answers = ra, summary_notes = ns, evaluation = ev,
                                    suitability = suitability, readiness_flag = rf,
                                    principles_alignment =
                                      dict_comp (\<lambda>name. dict_get_default pa name (PStr [])) names\<rparr>
                           | _ \<Rightarrow>
                               if names = []
                               then Inr \<lparr>raw_answers = ra, summary_notes = ns, evaluation = ev,
                                         suitability = suitability, readiness_flag = rf,
                                         principles_alignment = []\<rparr>
                               else Inl AttributeError))
           | _ \<Rightarrow> Inl AttributeError)
      | _ \<Rightarrow> Inl AttributeError)"

section \<open>Rendering\<close>

text \<open>
  An f-string field holding a string shows the string; for a value of another type it
  shows \<open>format(v)\<close>, which is taken as the parameter \<open>fmt\<close>.
\<close>

definition fstr :: "(pyval \<Rightarrow> pystr) \<Rightarrow> pyval \<Rightarrow> pystr" where
  "fstr fmt v = (case v of PStr s \<Rightarrow> s | _ \<Rightarrow> fmt v)"

fun join_lines :: "pystr list \<Rightarrow> pystr" where
  "join_lines [] = []"
| "join_lines [l] = l"
| "join_lines (l # ls) = l @ [10] @ join_lines ls"

definition render_markdown :: "(pyval \<Rightarrow> pystr) \<Rightarrow> structured \<Rightarrow> pystr" where
  "render_markdown fmt summary =
     (let n = summary_notes summary;
          note = (\<lambda>k. fstr fmt (dict_get_default n (ustr k) (PStr [])));
          lines =
            [ustr ''### Candidate Review (Condensed)'',
             ustr ''- **Background:** '' @ note ''background'',
             ustr ''- **Why LunarTech:** '' @ note ''why_lunartech'',
             ustr ''- **Experience:** '' @ note ''experience'',
             ustr ''- **Goals:** '' @ note ''future_goals'',
             ustr ''- **Readiness:** '' @ note ''readiness'' @ ustr ''  (_flag_: ''
               @ fstr fmt (readiness_flag summary) @ ustr '')'',
             [],
             ustr ''**Evaluation:** '' @ fstr fmt (evaluation summary),
             ustr ''**Suitability:** '' @ py_upper (suitability summary),
             [],
             ustr ''_Full raw answers are stored in the session JSON under `summary.raw_answers`._'']
      in join_lines
           (if principles_alignment summary = [] then lines
            else lines @ [[10] @ ustr ''### Principles Alignment'']
                 @ map (\<lambda>(k, v). ustr ''- **'' @ k @ ustr '':** '' @ fstr fmt (py_or v (PStr [8212])))
                     (principles_alignment summary)))"

section \<open>Extraction\<close>

text \<open>\<open>json.loads\<close> is a parameter \<open>loads\<close>: \<open>None\<close> where it raises.\<close>

text \<open>\<open>t.find(w)\<close>: where \<open>w\<close> first occurs in \<open>t\<close>.\<close>

fun find_sub :: "pystr \<Rightarrow> pystr \<Rightarrow> nat option" where
  "find_sub w [] = (if w = [] then Some 0 else None)"
| "find_sub w (c # cs) =
     (if take (length w) (c # cs) = w then Some 0 else map_option Suc (find_sub w cs))"

text \<open>
  \<open>re.search(r"```(?:json)?\s*([\s\S]*?)\s*```", text, flags=re.IGNORECASE)\<close> followed by
  \<open>m.group(1).strip()\<close>. A match starts at the first three backquotes and needs three more
  after them; when those are missing no later start has them either. The optional
  \<open>json\<close> is taken when it is there, in any case (the long s, 383, matches \<open>s\<close> too);
  neither it nor white space holds a backquote, so the lazy group always ends at the next
  three backquotes, less the white space before them. Stripped, the group is the
  stripped text between the optional \<open>json\<close> and those backquotes.
\<close>

definition fence :: pystr where
  "fence = [96, 96, 96]"

definition ci_json :: "pystr \<Rightarrow> bool" where
  "ci_json s =
     (case take 4 s of
        [j, s', o', n] \<Rightarrow>
          (j = 74 \<or> j = 106) \<and> (s' = 83 \<or> s' = 115 \<or> s' = 383)
          \<and> (o' = 79 \<or> o' = 111) \<and> (n = 78 \<or> n = 110)
      | _ \<Rightarrow> False)"

definition fenced_candidate :: "pystr \<Rightarrow> pystr option" where
  "fenced_candidate text =
     (case find_sub fence text of
        None \<Rightarrow> None
      | Some p \<Rightarrow>
          (let after = drop (p + 3) text;
               body = (if ci_json after then drop 4 after else after)
           in case find_sub fence body of
                None \<Rightarrow> None
              | Some q \<Rightarrow> Some (strip (take q body))))"

text \<open>\<open>[m.start() for m in re.finditer(c, text)]\<close> for a single character \<open>c\<close>.\<close>

definition positions :: "nat \<Rightarrow> pystr \<Rightarrow> nat list" where
  "positions c text = filter (\<lambda>i. text ! i = c) [0..<length text]"

text \<open>\<open>t[a:b]\<close> for \<open>a\<close> and \<open>b\<close> that are not negative.\<close>

definition py_slice :: "pystr \<Rightarrow> nat \<Rightarrow> nat \<Rightarrow> pystr" where
  "py_slice t a b = drop a (take b t)"

text \<open>
  The substrings the two nested loops try, in the order they try them: \<open>i\<close> counts the
  opening braces, and \<open>j\<close> runs over \<open>range(len(closes)-1, i-1, -1)\<close>, that is from the
  last closing brace down to the closing brace number \<open>i\<close>.
\<close>

definition brace_candidates :: "pystr \<Rightarrow> pystr list" where
  "brace_candidates text =
     (let opens = positions 123 text; closes = positions 125 text
      in concat (map (\<lambda>i. map (\<lambda>j. py_slice text (opens ! i) (closes ! j + 1))
                             (rev [i..<length closes]))
                   [0..<length opens]))"

definition extract_json_block :: "(pystr \<Rightarrow> pyval option) \<Rightarrow> pystr \<Rightarrow> pystr option" where
  "extract_json_block loads text =
     (if text = [] then None
      else case (case fenced_candidate text of
                   None \<Rightarrow> None
                 | Some cand \<Rightarrow> if loads cand \<noteq> None then Some cand else None) of
             Some cand \<Rightarrow> Some cand
           | None \<Rightarrow>
               (case List.find (\<lambda>s. loads s \<noteq> None) (brace_candidates text) of
                  Some s \<Rightarrow> Some s
                | None \<Rightarrow>
                    if loads (strip text) \<noteq> None then Some (strip text) else None))"

definition safe_json_parse :: "(pystr \<Rightarrow> pyval option) \<Rightarrow> pystr \<Rightarrow> pyval" where
  "safe_json_parse loads text =
     (if text = [] then PDict []
      else case loads text of
             Some v \<Rightarrow> v
           | None \<Rightarrow>
               (case extract_json_block loads text of
                  None \<Rightarrow> PDict []
                | Some block \<Rightarrow>
                    if block = [] then PDict []
                    else (case loads block of Some v \<Rightarrow> v | None \<Rightarrow> PDict [])))"

section \<open>The summaries\<close>

text \<open>
  What a summary depends on besides the session: the two settings it reads from
  \<open>config\<close>, the principles file, the model client, \<open>json.loads\<close> and \<open>format\<close>.
  \<open>LLMClient()\<close> raises or gives a client; the prompt is a fixed text around the capped
  answers and the principles text, so \<open>generate\<close> is a function of these two, and it
  raises or returns the response. The cooldown is real time and is left out.
\<close>

record env =
  USE_LLM_SUMMARY :: bool
  SUMMARY_ANSWER_CAP :: int
  principles :: file_state
  llm_client :: "error + ((pystr \<times> pystr) list \<Rightarrow> pystr \<Rightarrow> error + pystr)"
  json_loads :: "pystr \<Rightarrow> pyval option"
  format :: "pyval \<Rightarrow> pystr"

text \<open>A session: its \<open>answers\<close> entry may be missing or \<open>None\<close>.\<close>

record session =
  session_answers :: "answers option"

definition answers_of :: "session \<Rightarrow> answers" where
  "answers_of s = (case session_answers s of None \<Rightarrow> [] | Some a \<Rightarrow> a)"

definition template_literal :: pystr where
  "template_literal =
     ustr ''Template summary: Candidate provided responses. Enable LLM summaries for richer evaluation.''"

definition template_summary :: "env \<Rightarrow> session \<Rightarrow> error + pystr \<times> structured" where
  "template_summary E s =
     (case coerce_schema (principles E) (PDict []) (answers_of s) of
        Inl e \<Rightarrow> Inl e
      | Inr structured \<Rightarrow>
          (let structured' = structured\<lparr>evaluation := PStr template_literal\<rparr>
           in Inr (render_markdown (format E) structured', structured')))"

definition cap_answers :: "int \<Rightarrow> answers \<Rightarrow> (pystr \<times> pystr) list" where
  "cap_answers cap a =
     List.map_filter
       (\<lambda>(k, v). case v of
                    None \<Rightarrow> None
                  | Some t \<Rightarrow> if t \<noteq> [] then Some (k, cap_text t cap) else None)
       a"

definition llm_summary :: "env \<Rightarrow> session \<Rightarrow> error + pystr \<times> structured" where
  "llm_summary E s =
     (let a = answers_of s;
          answers_capped = cap_answers (SUMMARY_ANSWER_CAP E) a
      in case llm_client E of
           Inl e \<Rightarrow> Inl e
         | Inr generate \<Rightarrow>
             (case read_principles (principles E) of
                Inl e \<Rightarrow> Inl e
              | Inr principles_text \<Rightarrow>
                  (case generate answers_capped principles_text of
                     Inl e \<Rightarrow> Inl e
                   | Inr response \<Rightarrow>
                       (let raw = safe_json_parse (json_loads E) response
                        in case coerce_schema (principles E) raw a of
                             Inl e \<Rightarrow> Inl e
                           | Inr structured \<Rightarrow>
                               Inr (render_markdown (format E) structured, structured)))))"

definition summarize_session :: "env \<Rightarrow> session \<Rightarrow> error + pystr \<times> structured" where
  "summarize_session E s =
     (if \<not> USE_LLM_SUMMARY E then template_summary E s
      else case llm_summary E s of
             Inr r \<Rightarrow> Inr r
           | Inl e \<Rightarrow> template_summary E s)"

section \<open>The model client\<close>

text \<open>
  The world \<open>generate\<close> acts on: the files of the cache directory, the paths that can be
  written, and the outbound calls made so far, each with its model and prompt. A file
  that is there holds a text that decodes, \<open>Readable\<close> with the characters as they are
  stored, or reading it raises. A write that cannot open its file leaves the directory as
  it was.
\<close>

datatype cache_file = Readable pystr | Damaged

record world =
  files :: "pystr \<Rightarrow> cache_file option"
  writable :: "pystr \<Rightarrow> bool"
  calls :: "(pystr \<times> pystr) list"

text \<open>
  The platform gives the separator of \<open>os.path.join\<close> and the line separator
  \<open>os.linesep\<close>. The cache files are opened in text mode with no \<open>newline\<close> argument:
  writing turns each line feed into the line separator, and reading turns each of
  CR LF and CR into a line feed.
\<close>

datatype platform = Posix | Windows

definition path_sep :: "platform \<Rightarrow> pystr" where
  "path_sep pl = (case pl of Posix \<Rightarrow> [47] | Windows \<Rightarrow> [92])"

definition linesep :: "platform \<Rightarrow> pystr" where
  "linesep pl = (case pl of Posix \<Rightarrow> [10] | Windows \<Rightarrow> [13, 10])"

definition write_newlines :: "platform \<Rightarrow> pystr \<Rightarrow> pystr" where
  "write_newlines pl text = concat (map (\<lambda>c. if c = 10 then linesep pl else [c]) text)"

fun read_newlines :: "pystr \<Rightarrow> pystr" where
  "read_newlines [] = []"
| "read_newlines (c # cs) =
     (if c = 13 then
        (case cs of
           [] \<Rightarrow> [10]
         | d # ds \<Rightarrow> if d = 10 then 10 # read_newlines ds else 10 # read_newlines (d # ds))
      else c # read_newlines cs)"

text \<open>
  What the client reaches outside the program: the platform, SHA-256 in hexadecimal, and
  the provider, whose answer to a call may depend on how many calls came before it.
\<close>

record services =
  os_platform :: platform
  sha256_hex :: "pystr \<Rightarrow> pystr"
  api :: "nat \<Rightarrow> pystr \<Rightarrow> pystr \<Rightarrow> error + pystr"

text \<open>\<open>s.encode("utf-8")\<close> raises on a surrogate code point.\<close>

definition encodable :: "pystr \<Rightarrow> bool" where
  "encodable s = list_all (\<lambda>c. c < 55296 \<or> 57343 < c) s"

definition cache_path :: "services \<Rightarrow> pystr \<Rightarrow> pystr \<Rightarrow> error + pystr" where
  "cache_path S prompt model =
     (if encodable (model @ [10] @ prompt)
      then Inr (ustr ''.llm_cache'' @ path_sep (os_platform S)
                @ sha256_hex S (model @ [10] @ prompt) @ ustr ''.txt'')
      else Inl UnicodeEncodeError)"

text \<open>
  \<open>_cache_get\<close> computes the path outside its \<open>try\<close>; a read that raises gives \<open>None\<close>,
  and a read that succeeds gives the stored text with its line ends translated.
\<close>

definition cache_get :: "services \<Rightarrow> world \<Rightarrow> pystr \<Rightarrow> pystr \<Rightarrow> error + pystr option" where
  "cache_get S w prompt model =
     (case cache_path S prompt model of
        Inl e \<Rightarrow> Inl e
      | Inr p \<Rightarrow>
          (case files w p of
             None \<Rightarrow> Inr None
           | Some (Readable stored) \<Rightarrow> Inr (Some (read_newlines stored))
           | Some Damaged \<Rightarrow> Inr None))"

text \<open>
  \<open>_cache_set\<close> swallows every exception. Opening the file for writing empties it; a
  text that cannot be encoded then raises in \<open>write\<close> and leaves it empty. A text that
  can be encoded is stored with its line feeds turned into the line separator.
\<close>

definition cache_set :: "services \<Rightarrow> world \<Rightarrow> pystr \<Rightarrow> pystr \<Rightarrow> pystr \<Rightarrow> world" where
  "cache_set S w prompt model text =
     (case cache_path S prompt model of
        Inl e \<Rightarrow> w
      | Inr p \<Rightarrow>
          if writable w p
          then w\<lparr>files := (files w)(p \<mapsto>
                   Readable (if encodable text then write_newlines (os_platform S) text else []))\<rparr>
          else w)"

text \<open>
  A client as its constructor leaves it: the OpenAI backend with its primary and its
  fallback model, or the Mistral backend with its model. The constructor raises on any
  other backend, so the last branch of \<open>generate\<close> is never reached.
\<close>

datatype client = OpenAI pystr pystr | Mistral pystr

definition call_api :: "services \<Rightarrow> world \<Rightarrow> pystr \<Rightarrow> pystr \<Rightarrow> (error + pystr) \<times> world" where
  "call_api S w model prompt =
     (api S (length (calls w)) model prompt, w\<lparr>calls := calls w @ [(model, prompt)]\<rparr>)"

text \<open>The model whose name goes into the cache key: the primary model, or the Mistral model.\<close>

definition key_model :: "client \<Rightarrow> pystr" where
  "key_model c =
     (case c of OpenAI primary_model fallback_model \<Rightarrow> primary_model | Mistral m \<Rightarrow> m)"

definition generate :: "services \<Rightarrow> client \<Rightarrow> pystr \<Rightarrow> world \<Rightarrow> (error + pystr) \<times> world" where
  "generate S c prompt w =
     (let model = key_model c
      in case cache_get S w prompt model of
           Inl e \<Rightarrow> (Inl e, w)
         | Inr (Some cached) \<Rightarrow> (Inr cached, w)
         | Inr None \<Rightarrow>
             (case c of
                OpenAI primary_model fallback_model \<Rightarrow>
                  (case call_api S w primary_model prompt of
                     (Inr text, w1) \<Rightarrow> (Inr text, cache_set S w1 prompt model text)
                   | (Inl e, w1) \<Rightarrow>
                       if fallback_model \<noteq> [] then
                         (case call_api S w1 fallback_model prompt of
                            (Inr text, w2) \<Rightarrow> (Inr text, cache_set S w2 prompt model text)
                          | (Inl e2, w2) \<Rightarrow> (Inl e2, w2))
                       else (Inl e, w1))
              | Mistral m \<Rightarrow>
                  (case call_api S w m prompt of
                     (Inr text, w1) \<Rightarrow> (Inr text, cache_set S w1 prompt model text)
                   | (Inl e, w1) \<Rightarrow> (Inl e, w1))))"

section \<open>The extraction as the specification words it\<close>

text \<open>
  The specification's algorithm, to compare \<open>extract_json_block\<close> with. Its second step
  pairs each position \<open>i\<close> of an opening brace with the positions \<open>j \<ge> i\<close> of the closing
  braces, the last one first, and decodes \<open>text[i..j]\<close>; its first two steps decode a
  JSON object.
\<close>

definition decodes_object :: "(pystr \<Rightarrow> pyval option) \<Rightarrow> pystr \<Rightarrow> bool" where
  "decodes_object loads t = (case loads t of Some (PDict d) \<Rightarrow> True | _ \<Rightarrow> False)"

definition spec_candidates :: "pystr \<Rightarrow> pystr list" where
  "spec_candidates text =
     (let opens = positions 123 text; closes = positions 125 text
      in concat (map (\<lambda>i. map (\<lambda>j. py_slice text i (j + 1))
                             (rev (filter (\<lambda>j. i \<le> j) closes)))
                   opens))"

definition spec_extract :: "(pystr \<Rightarrow> pyval option) \<Rightarrow> pystr \<Rightarrow> pystr option" where
  "spec_extract loads text =
     (case (case fenced_candidate text of
              None \<Rightarrow> None
            | Some cand \<Rightarrow> if decodes_object loads cand then Some cand else None) of
        Some cand \<Rightarrow> Some cand
      | None \<Rightarrow>
          (case List.find (decodes_object loads) (spec_candidates text) of
             Some t \<Rightarrow> Some t
           | None \<Rightarrow> if loads (strip text) \<noteq> None then Some (strip text) else None))"

section \<open>Example inputs\<close>

text \<open>
  A model backend that fails, one that answers with an empty JSON object, and a decoder
  that agrees with \<open>json.loads\<close> on the texts the examples hand to it: it decodes
  \<open>{}\<close> and \<open>{"a":1}\<close> and raises on the rest. \<open>blank_format\<close> stands for \<open>format\<close>;
  the examples render strings only, so it is never applied.
\<close>

definition failing_generate :: "(pystr \<times> pystr) list \<Rightarrow> pystr \<Rightarrow> error + pystr" where
  "failing_generate answers_capped principles_text = Inl GenerationError"

definition empty_object_generate :: "(pystr \<times> pystr) list \<Rightarrow> pystr \<Rightarrow> error + pystr" where
  "empty_object_generate answers_capped principles_text = Inr (ustr ''{}'')"

definition a1_text :: pystr where
  "a1_text = [123, 34, 97, 34, 58, 49, 125]"

definition small_loads :: "pystr \<Rightarrow> pyval option" where
  "small_loads t =
     (if t = ustr ''{}'' then Some (PDict [])
      else if t = a1_text then Some (PDict [(ustr ''a'', PInt 1)])
      else None)"

text \<open>The text \<open>{ {"a":1}\<close>: a brace that is never closed, then a JSON object.\<close>

definition unbalanced_text :: pystr where
  "unbalanced_text = [123, 32] @ a1_text"

definition blank_format :: "pyval \<Rightarrow> pystr" where
  "blank_format v = []"

text \<open>
  The end-to-end example of the specification: three answers and a model backend that
  fails.
\<close>

definition example_session :: session where
  "example_session =
     \<lparr>session_answers =
        Some [(ustr ''background'', Some (ustr ''...'')),
              (ustr ''experience'', Some (ustr ''...'')),
              (ustr ''readiness'', Some (ustr ''starting next month''))]\<rparr>"

definition example_env :: env where
  "example_env =
     \<lparr>USE_LLM_SUMMARY = True, SUMMARY_ANSWER_CAP = 800, principles = Missing,
      llm_client = Inr failing_generate, json_loads = small_loads, format = blank_format\<rparr>"

text \<open>The same with a principles file that is there and cannot be read.\<close>

definition unreadable_env :: env where
  "unreadable_env = example_env\<lparr>principles := Unreadable\<rparr>"

text \<open>
  A backend that answers with a text that holds no JSON, so that nothing is extracted.
\<close>

definition noise_text :: pystr where
  "noise_text = ustr ''not json at all''"

definition noise_generate :: "(pystr \<times> pystr) list \<Rightarrow> pystr \<Rightarrow> error + pystr" where
  "noise_generate answers_capped principles_text = Inr noise_text"

definition noise_env :: env where
  "noise_env = example_env\<lparr>llm_client := Inr noise_generate\<rparr>"

text \<open>A backend that answers, a cap of five characters and one long answer.\<close>

definition capped_env :: env where
  "capped_env =
     \<lparr>USE_LLM_SUMMARY = True, SUMMARY_ANSWER_CAP = 5, principles = Missing,
      llm_client = Inr empty_object_generate, json_loads = small_loads,
      format = blank_format\<rparr>"

definition long_session :: session where
  "long_session =
     \<lparr>session_answers = Some [(ustr ''experience'', Some (ustr ''ten years of Python''))]\<rparr>"

text \<open>The principles text of two items that the specification gives as an example.\<close>

definition two_principles :: pystr where
  "two_principles = ustr ''- Curiosity'' @ [10] @ ustr ''- Grit'' @ [10]"

text \<open>A principles text that lists the same principle twice.\<close>

definition twice_grit :: pystr where
  "twice_grit = ustr ''- Grit'' @ [10] @ ustr ''- Grit''"

text \<open>
  An OpenAI client whose primary model fails and whose fallback model answers, over an
  empty cache directory that can be written. The hash is the identity here.
\<close>

definition fallback_only_api :: "nat \<Rightarrow> pystr \<Rightarrow> pystr \<Rightarrow> error + pystr" where
  "fallback_only_api k model prompt =
     (if model = ustr ''gpt-4o'' then Inr (ustr ''{}'') else Inl GenerationError)"

definition plain_hash :: "pystr \<Rightarrow> pystr" where
  "plain_hash t = t"

definition example_services :: services where
  "example_services =
     \<lparr>os_platform = Posix, sha256_hex = plain_hash, api = fallback_only_api\<rparr>"

definition example_client :: client where
  "example_client = OpenAI (ustr ''gpt-4o-mini'') (ustr ''gpt-4o'')"

definition example_prompt :: pystr where
  "example_prompt = ustr ''Summarize the interview.''"

definition no_file :: "pystr \<Rightarrow> cache_file option" where
  "no_file p = None"

definition any_path :: "pystr \<Rightarrow> bool" where
  "any_path p = True"

definition fresh_world :: world where
  "fresh_world = \<lparr>files = no_file, writable = any_path, calls = []\<rparr>"

text \<open>
  A provider whose model \<open>gpt-4o-mini\<close> fails and whose other models answer the call
  number \<open>k\<close> with the text \<open>texts k\<close>; a text with a CR LF; a Mistral client; and an
  empty cache directory that cannot be written.
\<close>

definition scripted_api :: "(nat \<Rightarrow> pystr) \<Rightarrow> nat \<Rightarrow> pystr \<Rightarrow> pystr \<Rightarrow> error + pystr" where
  "scripted_api texts k model prompt =
     (if model = ustr ''gpt-4o-mini'' then Inl GenerationError else Inr (texts k))"

definition first_then_other :: "nat \<Rightarrow> pystr" where
  "first_then_other k = (if k \<le> 1 then ustr ''first'' else ustr ''other'')"

definition numbered_text :: "nat \<Rightarrow> pystr" where
  "numbered_text k = (if k = 0 then ustr ''first'' else ustr ''other'')"

definition crlf_text :: pystr where
  "crlf_text = [97, 13, 10, 98]"

definition always_crlf :: "nat \<Rightarrow> pystr" where
  "always_crlf k = crlf_text"

definition changing_services :: services where
  "changing_services =
     \<lparr>os_platform = Posix, sha256_hex = plain_hash, api = scripted_api first_then_other\<rparr>"

definition numbered_services :: services where
  "numbered_services =
     \<lparr>os_platform = Posix, sha256_hex = plain_hash, api = scripted_api numbered_text\<rparr>"

definition crlf_services :: services where
  "crlf_services =
     \<lparr>os_platform = Posix, sha256_hex = plain_hash, api = scripted_api always_crlf\<rparr>"

text \<open>A provider that answers with a lone surrogate, which UTF-8 cannot encode.\<close>

definition surrogate_text :: pystr where
  "surrogate_text = [55357]"

definition always_surrogate :: "nat \<Rightarrow> pystr" where
  "always_surrogate k = surrogate_text"

definition surrogate_services :: services where
  "surrogate_services =
     \<lparr>os_platform = Posix, sha256_hex = plain_hash, api = scripted_api always_surrogate\<rparr>"

definition mistral_client :: client where
  "mistral_client = Mistral (ustr ''mistral-medium-latest'')"

definition no_path :: "pystr \<Rightarrow> bool" where
  "no_path p = False"

definition readonly_world :: world where
  "readonly_world = \<lparr>files = no_file, writable = no_path, calls = []\<rparr>"

section \<open>Coercion and the recovery boundary\<close>

text \<open>What a successful coercion returns, field by field.\<close>


lemma coerce_schema_Inr:
  assumes "coerce_schema pf raw a = Inr r"
  shows "\<exists>kvs nkv md. raw = PDict kvs
           \<and> py_or (dict_get kvs (ustr ''notes'')) (PDict []) = PDict nkv
           \<and> read_principles pf = Inr md
           \<and> raw_answers r = map (\<lambda>(k, ks). (k, pick a ks)) semantic_keys
           \<and> summary_notes r =
                 map (\<lambda>(k, ks). (k, py_or (dict_get nkv k) (PStr (shorten (pick a ks) 220))))
                   semantic_keys
           \<and> evaluation r = py_or (dict_get kvs (ustr ''evaluation''))
                 (PStr (ustr ''Automated notes generated; consider human review for final decision.''))
           \<and> suitability r = coerce_suitability (dict_get kvs (ustr ''suitability'')) a
           \<and> readiness_flag r = py_or (dict_get kvs (ustr ''readiness_flag''))
                 (PStr (readiness_inference (pick a [ustr ''readiness''])))
           \<and> principles_alignment r =
                 (case py_or (dict_get kvs (ustr ''principles_alignment'')) (PDict []) of
                    PDict pa \<Rightarrow> dict_comp (\<lambda>name. dict_get_default pa name (PStr [])) (principle_names md)
                  | _ \<Rightarrow> [])"
  using assms unfolding coerce_schema_def Let_def
  by (auto split: pyval.splits sum.splits if_splits)

lemma py_or_dict_or_falsy:
  assumes "(\<exists>d. v = PDict d) \<or> \<not> truthy v"
  shows "\<exists>d. py_or v (PDict []) = PDict d"
  using assms by (auto simp: py_or_def)

lemma read_principles_ok:
  "pf \<noteq> Unreadable \<Longrightarrow> \<exists>md. read_principles pf = Inr md"
  by (cases pf) (simp_all add: read_principles_def)

lemma coerce_schema_succeeds:
  assumes "(\<exists>d. dict_get kvs (ustr ''notes'') = PDict d) \<or> \<not> truthy (dict_get kvs (ustr ''notes''))"
    and "(\<exists>d. dict_get kvs (ustr ''principles_alignment'') = PDict d)
         \<or> \<not> truthy (dict_get kvs (ustr ''principles_alignment''))"
    and "pf \<noteq> Unreadable"
  shows "\<exists>r. coerce_schema pf (PDict kvs) a = Inr r"
proof -
  obtain nkv where n: "py_or (dict_get kvs (ustr ''notes'')) (PDict []) = PDict nkv"
    using py_or_dict_or_falsy [OF assms(1)] by blast
  obtain pa where p: "py_or (dict_get kvs (ustr ''principles_alignment'')) (PDict []) = PDict pa"
    using py_or_dict_or_falsy [OF assms(2)] by blast
  obtain md where m: "read_principles pf = Inr md"
    using read_principles_ok [OF assms(3)] by blast
  show ?thesis
    unfolding coerce_schema_def by (simp add: n p m Let_def)
qed

lemma dict_get_empty: "dict_get [] k = PNone"
  by (simp add: dict_get_def)

lemma coerce_schema_empty_raw:
  "pf \<noteq> Unreadable \<Longrightarrow> \<exists>r. coerce_schema pf (PDict []) a = Inr r"
  by (rule coerce_schema_succeeds) (simp_all add: dict_get_empty)

lemma template_summary_ok:
  assumes "principles E \<noteq> Unreadable"
  shows "\<exists>r. template_summary E s = Inr (render_markdown (format E) r, r)
             \<and> evaluation r = PStr template_literal"
proof -
  obtain r0 where "coerce_schema (principles E) (PDict []) (answers_of s) = Inr r0"
    using coerce_schema_empty_raw [OF assms] by blast
  then show ?thesis
    unfolding template_summary_def by (simp add: Let_def)
qed

lemma summarize_session_cases:
  "summarize_session E s = template_summary E s
   \<or> (USE_LLM_SUMMARY E \<and> (\<exists>r. llm_summary E s = Inr r \<and> summarize_session E s = Inr r))"
  unfolding summarize_session_def by (auto split: sum.splits)

lemma summarize_session_fallback:
  "USE_LLM_SUMMARY E \<Longrightarrow> llm_summary E s = Inl e \<Longrightarrow> summarize_session E s = template_summary E s"
  unfolding summarize_session_def by simp

lemma template_summary_record:
  assumes "coerce_schema (principles E) (PDict []) (answers_of s) = Inr r0"
  shows "template_summary E s
         = Inr (render_markdown (format E) (r0\<lparr>evaluation := PStr template_literal\<rparr>),
                r0\<lparr>evaluation := PStr template_literal\<rparr>)"
  using assms by (simp add: template_summary_def Let_def)

lemma coerce_schema_empty_evaluation:
  assumes "coerce_schema pf (PDict []) a = Inr r0"
  shows "evaluation r0
         = PStr (ustr ''Automated notes generated; consider human review for final decision.'')"
  using coerce_schema_Inr [OF assms] by (auto simp: py_or_def dict_get_def)

lemma llm_summary_chain:
  assumes "llm_client E = Inr gen"
    and "read_principles (principles E) = Inr principles_text"
    and "gen (cap_answers (SUMMARY_ANSWER_CAP E) (answers_of s)) principles_text = Inr response"
  shows "llm_summary E s
         = (case coerce_schema (principles E) (safe_json_parse (json_loads E) response)
                  (answers_of s) of
              Inl e \<Rightarrow> Inl e
            | Inr structured \<Rightarrow> Inr (render_markdown (format E) structured, structured))"
  using assms by (simp add: llm_summary_def Let_def)

text \<open>
  C1 (amended). When the principles file is missing or can be read, \<open>summarize_session\<close>
  returns a markdown text and a structured summary for every session whose answers are
  strings or \<open>None\<close>, and the answers alone always coerce to a record. When the model
  summaries are switched off or the model path fails, for whatever reason, the result
  is the template summary: that record with the template literal as its evaluation.
  When the model answers and nothing is extracted from its response, the result is that
  record as it is, with the default evaluation of the coercion.
\<close>

theorem summarize_session_total:
  assumes "principles E \<noteq> Unreadable"
  shows "\<exists>r0. coerce_schema (principles E) (PDict []) (answers_of s) = Inr r0
       \<and> (\<exists>md r. summarize_session E s = Inr (md, r))
       \<and> (\<not> USE_LLM_SUMMARY E \<or> (\<exists>e. llm_summary E s = Inl e) \<longrightarrow>
            summarize_session E s
            = Inr (render_markdown (format E) (r0\<lparr>evaluation := PStr template_literal\<rparr>),
                   r0\<lparr>evaluation := PStr template_literal\<rparr>))
       \<and> (USE_LLM_SUMMARY E
            \<and> (\<exists>gen principles_text response.
                  llm_client E = Inr gen
                  \<and> read_principles (principles E) = Inr principles_text
                  \<and> gen (cap_answers (SUMMARY_ANSWER_CAP E) (answers_of s)) principles_text
                    = Inr response
                  \<and> safe_json_parse (json_loads E) response = PDict []) \<longrightarrow>
            summarize_session E s = Inr (render_markdown (format E) r0, r0)
            \<and> evaluation r0
              = PStr (ustr ''Automated notes generated; consider human review for final decision.''))"
proof -
  obtain r0 where r0: "coerce_schema (principles E) (PDict []) (answers_of s) = Inr r0"
    using coerce_schema_empty_raw [OF assms] by blast
  have t: "template_summary E s
           = Inr (render_markdown (format E) (r0\<lparr>evaluation := PStr template_literal\<rparr>),
                  r0\<lparr>evaluation := PStr template_literal\<rparr>)"
    by (rule template_summary_record [OF r0])
  have ret: "\<exists>md r. summarize_session E s = Inr (md, r)"
    using summarize_session_cases [of E s] t by (metis surj_pair)
  have failed: "\<not> USE_LLM_SUMMARY E \<or> (\<exists>e. llm_summary E s = Inl e) \<longrightarrow>
            summarize_session E s
            = Inr (render_markdown (format E) (r0\<lparr>evaluation := PStr template_literal\<rparr>),
                   r0\<lparr>evaluation := PStr template_literal\<rparr>)"
    using t unfolding summarize_session_def by auto
  have extraction: "USE_LLM_SUMMARY E
            \<and> (\<exists>gen principles_text response.
                  llm_client E = Inr gen
                  \<and> read_principles (principles E) = Inr principles_text
                  \<and> gen (cap_answers (SUMMARY_ANSWER_CAP E) (answers_of s)) principles_text
                    = Inr response
                  \<and> safe_json_parse (json_loads E) response = PDict []) \<longrightarrow>
            summarize_session E s = Inr (render_markdown (format E) r0, r0)
            \<and> evaluation r0
              = PStr (ustr ''Automated notes generated; consider human review for final decision.'')"
  proof
    assume h: "USE_LLM_SUMMARY E
            \<and> (\<exists>gen principles_text response.
                  llm_client E = Inr gen
                  \<and> read_principles (principles E) = Inr principles_text
                  \<and> gen (cap_answers (SUMMARY_ANSWER_CAP E) (answers_of s)) principles_text
                    = Inr response
                  \<and> safe_json_parse (json_loads E) response = PDict [])"
    then obtain gen principles_text response where
      c: "llm_client E = Inr gen" "read_principles (principles E) = Inr principles_text"
         "gen (cap_answers (SUMMARY_ANSWER_CAP E) (answers_of s)) principles_text = Inr response"
      and e: "safe_json_parse (json_loads E) response = PDict []"
      by blast
    have "llm_summary E s = Inr (render_markdown (format E) r0, r0)"
      using llm_summary_chain [OF c] by (simp add: e r0)
    with h have "summarize_session E s = Inr (render_markdown (format E) r0, r0)"
      by (simp add: summarize_session_def)
    then show "summarize_session E s = Inr (render_markdown (format E) r0, r0)
            \<and> evaluation r0
              = PStr (ustr ''Automated notes generated; consider human review for final decision.'')"
      using coerce_schema_empty_evaluation [OF r0] by simp
  qed
  from r0 ret failed extraction show ?thesis
    by (intro exI [of _ r0] conjI)
qed

lemma ex_env_simps:
  "USE_LLM_SUMMARY example_env" "principles example_env = Missing"
  "llm_client example_env = Inr failing_generate"
  by (simp_all add: example_env_def)

lemma example_llm_fails: "llm_summary example_env example_session = Inl GenerationError"
  by (simp add: llm_summary_def ex_env_simps read_principles_def failing_generate_def Let_def)

lemma noise_env_simps:
  "USE_LLM_SUMMARY noise_env" "principles noise_env = Missing"
  "llm_client noise_env = Inr noise_generate" "json_loads noise_env = small_loads"
  "format noise_env = blank_format" "format example_env = blank_format"
  by (simp_all add: noise_env_def example_env_def)

lemma noise_positions:
  "positions 123 noise_text = []" "positions 125 noise_text = []"
  by (simp_all add: positions_def noise_text_def ustr_def upt_rec [of _ "numeral _"] upt_rec [of 0])

lemma noise_not_parsed: "safe_json_parse small_loads noise_text = PDict []"
proof -
  have l: "small_loads noise_text = None" "small_loads (strip noise_text) = None"
    by (simp_all add: small_loads_def noise_text_def a1_text_def strip_def lstrip_def rstrip_def
        is_space_def ustr_def)
  have f: "fenced_candidate noise_text = None"
    by (simp add: fenced_candidate_def fence_def noise_text_def ustr_def)
  have b: "brace_candidates noise_text = []"
    by (simp add: brace_candidates_def noise_positions)
  show ?thesis
    by (simp add: safe_json_parse_def extract_json_block_def l f b)
qed

lemma noise_llm_chain:
  "llm_client noise_env = Inr noise_generate
   \<and> read_principles (principles noise_env) = Inr []
   \<and> noise_generate (cap_answers (SUMMARY_ANSWER_CAP noise_env) (answers_of example_session)) []
     = Inr noise_text
   \<and> safe_json_parse (json_loads noise_env) noise_text = PDict []"
  by (simp add: noise_env_simps read_principles_def noise_generate_def noise_not_parsed)

text \<open>
  The theorem at the end-to-end example, where the model backend fails, and at a backend
  that answers \<open>not json at all\<close>, from which nothing is extracted.
\<close>

theorem summarize_session_total_witness:
  "principles example_env \<noteq> Unreadable
   \<and> llm_summary example_env example_session = Inl GenerationError
   \<and> (\<exists>r0. coerce_schema (principles example_env) (PDict []) (answers_of example_session) = Inr r0
          \<and> summarize_session example_env example_session
            = Inr (render_markdown (format example_env)
                     (r0\<lparr>evaluation := PStr template_literal\<rparr>),
                   r0\<lparr>evaluation := PStr template_literal\<rparr>))
   \<and> principles noise_env \<noteq> Unreadable
   \<and> USE_LLM_SUMMARY noise_env
   \<and> llm_client noise_env = Inr noise_generate
   \<and> read_principles (principles noise_env) = Inr []
   \<and> noise_generate (cap_answers (SUMMARY_ANSWER_CAP noise_env) (answers_of example_session)) []
     = Inr noise_text
   \<and> safe_json_parse (json_loads noise_env) noise_text = PDict []
   \<and> (\<exists>r0. coerce_schema (principles noise_env) (PDict []) (answers_of example_session) = Inr r0
          \<and> summarize_session noise_env example_session
            = Inr (render_markdown (format noise_env) r0, r0)
          \<and> evaluation r0
            = PStr (ustr ''Automated notes generated; consider human review for final decision.''))"
proof -
  have p1: "principles example_env \<noteq> Unreadable"
    by (simp add: ex_env_simps)
  have p2: "principles noise_env \<noteq> Unreadable"
    by (simp add: noise_env_simps)
  from summarize_session_total [OF p1, of example_session] obtain r1 where
    a1: "coerce_schema (principles example_env) (PDict []) (answers_of example_session) = Inr r1"
    and a2: "\<not> USE_LLM_SUMMARY example_env \<or> (\<exists>e. llm_summary example_env example_session = Inl e)
             \<longrightarrow> summarize_session example_env example_session
                 = Inr (render_markdown (format example_env)
                          (r1\<lparr>evaluation := PStr template_literal\<rparr>),
                        r1\<lparr>evaluation := PStr template_literal\<rparr>)"
    by blast
  from a2 example_llm_fails
  have a3: "summarize_session example_env example_session
            = Inr (render_markdown (format example_env)
                     (r1\<lparr>evaluation := PStr template_literal\<rparr>),
                   r1\<lparr>evaluation := PStr template_literal\<rparr>)"
    by blast
  from summarize_session_total [OF p2, of example_session] obtain r2 where
    b1: "coerce_schema (principles noise_env) (PDict []) (answers_of example_session) = Inr r2"
    and b2: "USE_LLM_SUMMARY noise_env
            \<and> (\<exists>gen principles_text response.
                  llm_client noise_env = Inr gen
                  \<and> read_principles (principles noise_env) = Inr principles_text
                  \<and> gen (cap_answers (SUMMARY_ANSWER_CAP noise_env) (answers_of example_session))
                        principles_text
                    = Inr response
                  \<and> safe_json_parse (json_loads noise_env) response = PDict []) \<longrightarrow>
            summarize_session noise_env example_session
              = Inr (render_markdown (format noise_env) r2, r2)
            \<and> evaluation r2
              = PStr (ustr ''Automated notes generated; consider human review for final decision.'')"
    by blast
  from b2 noise_llm_chain noise_env_simps(1)
  have b3: "summarize_session noise_env example_session
              = Inr (render_markdown (format noise_env) r2, r2)
            \<and> evaluation r2
              = PStr (ustr ''Automated notes generated; consider human review for final decision.'')"
    by blast
  have e1: "\<exists>r0. coerce_schema (principles example_env) (PDict []) (answers_of example_session) = Inr r0
          \<and> summarize_session example_env example_session
            = Inr (render_markdown (format example_env)
                     (r0\<lparr>evaluation := PStr template_literal\<rparr>),
                   r0\<lparr>evaluation := PStr template_literal\<rparr>)"
    using a1 a3 by blast
  have e2: "\<exists>r0. coerce_schema (principles noise_env) (PDict []) (answers_of example_session) = Inr r0
          \<and> summarize_session noise_env example_session
            = Inr (render_markdown (format noise_env) r0, r0)
          \<and> evaluation r0
            = PStr (ustr ''Automated notes generated; consider human review for final decision.'')"
    using b1 b3 by blast
  from p1 example_llm_fails e1 p2 noise_env_simps(1) noise_llm_chain e2 show ?thesis
    by (intro conjI) simp_all
qed

lemma noise_summary:
  "\<exists>r0. summarize_session noise_env example_session
          = Inr (render_markdown (format noise_env) r0, r0)
        \<and> template_summary noise_env example_session
          = Inr (render_markdown (format noise_env) (r0\<lparr>evaluation := PStr template_literal\<rparr>),
                 r0\<lparr>evaluation := PStr template_literal\<rparr>)
        \<and> evaluation r0
          = PStr (ustr ''Automated notes generated; consider human review for final decision.'')"
proof -
  have u: "principles noise_env \<noteq> Unreadable"
    by (simp add: noise_env_simps)
  from coerce_schema_empty_raw [OF u, of "answers_of example_session"]
  obtain r0 where r0: "coerce_schema (principles noise_env) (PDict []) (answers_of example_session)
                       = Inr r0" ..
  have c: "llm_client noise_env = Inr noise_generate"
    "read_principles (principles noise_env) = Inr []"
    "noise_generate (cap_answers (SUMMARY_ANSWER_CAP noise_env) (answers_of example_session)) []
     = Inr noise_text"
    using noise_llm_chain by simp_all
  have e: "safe_json_parse (json_loads noise_env) noise_text = PDict []"
    using noise_llm_chain by simp
  have "llm_summary noise_env example_session = Inr (render_markdown (format noise_env) r0, r0)"
    using llm_summary_chain [OF c] by (simp add: e r0)
  then have s: "summarize_session noise_env example_session
                = Inr (render_markdown (format noise_env) r0, r0)"
    by (simp add: summarize_session_def noise_env_simps)
  from s template_summary_record [OF r0] coerce_schema_empty_evaluation [OF r0]
  show ?thesis by (intro exI [of _ r0] conjI)
qed

text \<open>
  C1 as stated fails in two ways. \<open>_read_principles\<close> catches \<open>FileNotFoundError\<close> only, so
  a principles file that is there and cannot be read makes the model path fail and then
  the template path as well, and the exception leaves \<open>summarize_session\<close>. And when the
  model answers and nothing can be extracted from its response, no exception is raised:
  the result is not the one of \<open>_template_summary\<close>, its evaluation is the default of the
  coercion and not the literal of the template.
\<close>

theorem summarize_session_departs:
  "summarize_session unreadable_env example_session = Inl OSError
   \<and> map_sum id (evaluation \<circ> snd) (summarize_session noise_env example_session)
     = Inr (PStr (ustr ''Automated notes generated; consider human review for final decision.''))
   \<and> map_sum id (evaluation \<circ> snd) (template_summary noise_env example_session)
     = Inr (PStr (ustr ''Template summary: Candidate provided responses. Enable LLM summaries for richer evaluation.''))"
proof -
  have c1: "summarize_session unreadable_env example_session = Inl OSError"
    by (simp add: summarize_session_def llm_summary_def template_summary_def coerce_schema_def
      unreadable_env_def example_env_def read_principles_def failing_generate_def Let_def
      py_or_def dict_get_def)
  obtain r0 where s: "summarize_session noise_env example_session
          = Inr (render_markdown (format noise_env) r0, r0)"
    and t: "template_summary noise_env example_session
          = Inr (render_markdown (format noise_env) (r0\<lparr>evaluation := PStr template_literal\<rparr>),
                 r0\<lparr>evaluation := PStr template_literal\<rparr>)"
    and e: "evaluation r0
          = PStr (ustr ''Automated notes generated; consider human review for final decision.'')"
    using noise_summary by blast
  have c2: "map_sum id (evaluation \<circ> snd) (summarize_session noise_env example_session)
     = Inr (PStr (ustr ''Automated notes generated; consider human review for final decision.''))"
    unfolding s by (simp add: e)
  have c3: "map_sum id (evaluation \<circ> snd) (template_summary noise_env example_session)
     = Inr (PStr (ustr ''Template summary: Candidate provided responses. Enable LLM summaries for richer evaluation.''))"
    unfolding t by (simp add: template_literal_def)
  from c1 c2 c3 show ?thesis by (intro conjI)
qed

lemma semantic_keys_fst:
  "map fst (map (\<lambda>(k, ks). (k, f k ks)) semantic_keys) = map fst semantic_keys"
  by (simp add: semantic_keys_def)

lemma suitability_heuristic_range:
  "suitability_heuristic a \<in> {ustr ''strong'', ustr ''average'', ustr ''weak''}"
  by (simp add: suitability_heuristic_def Let_def)

lemma coerce_suitability_range:
  "coerce_suitability v a \<in> {ustr ''strong'', ustr ''average'', ustr ''weak''}"
  using suitability_heuristic_range [of a]
  by (cases v) (auto simp: coerce_suitability_def)

text \<open>
  C2 (amended). For a raw model output that is a mapping in which \<open>notes\<close> and
  \<open>principles_alignment\<close> are each a mapping or missing or falsy, whatever the types of
  the other values, for every answers mapping of strings, and when the principles file
  is missing or can be read, \<open>_coerce_schema\<close> returns a complete record: the five keys
  under \<open>raw_answers\<close> and under \<open>notes\<close>, an evaluation and a readiness flag that are
  not empty, and one of the three suitability literals.
\<close>

theorem coerce_schema_total:
  assumes "(\<exists>d. dict_get kvs (ustr ''notes'') = PDict d) \<or> \<not> truthy (dict_get kvs (ustr ''notes''))"
    and "(\<exists>d. dict_get kvs (ustr ''principles_alignment'') = PDict d)
         \<or> \<not> truthy (dict_get kvs (ustr ''principles_alignment''))"
    and "pf \<noteq> Unreadable"
  shows "\<exists>r. coerce_schema pf (PDict kvs) a = Inr r
             \<and> map fst (raw_answers r) = map fst semantic_keys
             \<and> map fst (summary_notes r) = map fst semantic_keys
             \<and> truthy (evaluation r)
             \<and> suitability r \<in> {ustr ''strong'', ustr ''average'', ustr ''weak''}
             \<and> truthy (readiness_flag r)"
proof -
  obtain r where r: "coerce_schema pf (PDict kvs) a = Inr r"
    using coerce_schema_succeeds [OF assms] by blast
  from coerce_schema_Inr [OF r] obtain kvs' nkv md where
    f: "PDict kvs = PDict kvs'"
       "raw_answers r = map (\<lambda>(k, ks). (k, pick a ks)) semantic_keys"
       "summary_notes r =
          map (\<lambda>(k, ks). (k, py_or (dict_get nkv k) (PStr (shorten (pick a ks) 220))))
            semantic_keys"
       "evaluation r = py_or (dict_get kvs' (ustr ''evaluation''))
          (PStr (ustr ''Automated notes generated; consider human review for final decision.''))"
       "suitability r = coerce_suitability (dict_get kvs' (ustr ''suitability'')) a"
       "readiness_flag r = py_or (dict_get kvs' (ustr ''readiness_flag''))
                 (PStr (readiness_inference (pick a [ustr ''readiness''])))"
    by blast
  have ri: "readiness_inference t \<noteq> []" for t
    by (simp add: readiness_inference_def Let_def ustr_def)
  have "truthy (evaluation r)"
    unfolding f(4) by (simp add: py_or_def ustr_def)
  moreover have "truthy (readiness_flag r)"
    unfolding f(6) by (simp add: py_or_def ri)
  moreover have "map fst (raw_answers r) = map fst semantic_keys"
    unfolding f(2) by (rule semantic_keys_fst)
  moreover have "map fst (summary_notes r) = map fst semantic_keys"
    unfolding f(3) by (rule semantic_keys_fst)
  ultimately show ?thesis
    using r f(5) coerce_suitability_range by auto
qed

text \<open>The theorem at a raw output whose suitability is a number and a principles file of two lines.\<close>

theorem coerce_schema_total_witness:
  "\<not> truthy (dict_get [(ustr ''suitability'', PInt 7)] (ustr ''notes''))
   \<and> \<not> truthy (dict_get [(ustr ''suitability'', PInt 7)] (ustr ''principles_alignment''))
   \<and> Content twice_grit \<noteq> Unreadable
   \<and> (\<exists>r. coerce_schema (Content twice_grit) (PDict [(ustr ''suitability'', PInt 7)]) [] = Inr r
           \<and> suitability r \<in> {ustr ''strong'', ustr ''average'', ustr ''weak''})"
  using coerce_schema_total [of "[(ustr ''suitability'', PInt 7)]" "Content twice_grit" "[]"]
  by (auto simp: dict_get_def ustr_def)

text \<open>
  C2 as stated fails: a \<open>notes\<close> value of the wrong type, here a string, has no \<open>get\<close>,
  and \<open>_coerce_schema\<close> raises \<open>AttributeError\<close>.
\<close>

theorem coerce_schema_notes_of_wrong_type:
  "coerce_schema Missing (PDict [(ustr ''notes'', PStr (ustr ''a strong candidate''))])
     [(ustr ''readiness'', Some (ustr ''I am ready now''))]
   = Inl AttributeError"
  by (simp add: coerce_schema_def dict_get_def py_or_def ustr_def)

section \<open>The readiness flag and the template evaluation\<close>

lemma readiness_inference_range:
  "readiness_inference t \<in> {ustr ''ready_now'', ustr ''date'', ustr ''needs_prep'', ustr ''unknown''}"
  by (simp add: readiness_inference_def Let_def)

lemma readiness_examples:
  "readiness_inference (ustr ''I am ready now'') = ustr ''ready_now''"
  "readiness_inference (ustr ''starting next month'') = ustr ''date''"
  "readiness_inference (ustr ''I need some PREP first'') = ustr ''needs_prep''"
  "readiness_inference (ustr ''maybe'') = ustr ''unknown''"
  by (simp_all add: readiness_inference_def Let_def ustr_def py_lower_def lower_cp_def)

text \<open>Where the readiness flag of the record comes from.\<close>

lemma readiness_flag_source:
  assumes "coerce_schema pf (PDict kvs) a = Inr r"
  shows "(truthy (dict_get kvs (ustr ''readiness_flag'')) \<longrightarrow>
            readiness_flag r = dict_get kvs (ustr ''readiness_flag''))
       \<and> (\<not> truthy (dict_get kvs (ustr ''readiness_flag'')) \<longrightarrow>
            readiness_flag r = PStr (readiness_inference (pick a [ustr ''readiness''])))"
  using coerce_schema_Inr [OF assms] by (auto simp: py_or_def)

text \<open>
  C3 (the code departs from it). A readiness flag that the model supplies is taken as it
  is, whatever it is: the flag of the record is \<open>soon\<close> here, which is none of the four
  literals, although the readiness answer alone gives \<open>ready_now\<close>. The suitability of
  the same record is checked against its literals; the readiness flag is not.
\<close>

theorem readiness_flag_unchecked:
  "map_sum id readiness_flag
     (coerce_schema Missing (PDict [(ustr ''readiness_flag'', PStr (ustr ''soon''))])
        [(ustr ''readiness'', Some (ustr ''I am ready now''))])
   = Inr (PStr (ustr ''soon''))
   \<and> ustr ''soon'' \<notin> {ustr ''ready_now'', ustr ''date'', ustr ''needs_prep'', ustr ''unknown''}"
  by (simp add: coerce_schema_def dict_get_def py_or_def read_principles_def Let_def ustr_def)

lemma template_summary_evaluation:
  "template_summary E s = Inr (md, r) \<Longrightarrow> evaluation r = PStr template_literal"
  unfolding template_summary_def by (auto split: sum.splits simp: Let_def)

lemma example_falls_back:
  "summarize_session example_env example_session = template_summary example_env example_session"
  by (simp add: summarize_session_def example_llm_fails ex_env_simps)

lemma example_coerced:
  "coerce_schema Missing (PDict []) (answers_of example_session)
   = Inr \<lparr>raw_answers =
            [(ustr ''background'', ustr ''...''), (ustr ''why_lunartech'', []),
             (ustr ''experience'', ustr ''...''), (ustr ''future_goals'', []),
             (ustr ''readiness'', ustr ''starting next month'')],
          summary_notes =
            [(ustr ''background'', PStr (ustr ''...'')), (ustr ''why_lunartech'', PStr []),
             (ustr ''experience'', PStr (ustr ''...'')), (ustr ''future_goals'', PStr []),
             (ustr ''readiness'', PStr (ustr ''starting next month''))],
          evaluation =
            PStr (ustr ''Automated notes generated; consider human review for final decision.''),
          suitability = ustr ''weak'',
          readiness_flag = PStr (ustr ''date''),
          principles_alignment = []\<rparr>"
  by (simp add: coerce_schema_def dict_get_def py_or_def read_principles_def Let_def
        example_session_def answers_of_def readiness_inference_def py_lower_def lower_cp_def
        answers_get_def semantic_keys_def shorten_def strip_def lstrip_def rstrip_def
        is_space_def coerce_suitability_def suitability_heuristic_def principle_names_def
        dict_comp_def List.map_filter_def ustr_def)

lemma example_summary:
  "map_sum id (readiness_flag \<circ> snd) (summarize_session example_env example_session)
   = Inr (PStr (ustr ''date''))"
  by (simp add: example_falls_back template_summary_def ex_env_simps example_coerced Let_def)

lemma llm_summary_evaluation:
  assumes "llm_summary E s = Inr (md, r)"
    and "llm_client E = Inr gen"
    and "read_principles (principles E) = Inr principles_text"
    and "gen (cap_answers (SUMMARY_ANSWER_CAP E) (answers_of s)) principles_text = Inr response"
    and "safe_json_parse (json_loads E) response = PDict kvs"
  shows "evaluation r = py_or (dict_get kvs (ustr ''evaluation''))
           (PStr (ustr ''Automated notes generated; consider human review for final decision.''))"
proof -
  from assms(1) llm_summary_chain [OF assms(2,3,4)] assms(5)
  have "coerce_schema (principles E) (PDict kvs) (answers_of s) = Inr r"
    by (auto split: sum.splits)
  from coerce_schema_Inr [OF this] show ?thesis by auto
qed

lemma noise_llm_summary:
  "\<exists>md r. llm_summary noise_env example_session = Inr (md, r)
          \<and> summarize_session noise_env example_session = Inr (md, r)
          \<and> evaluation r
            = PStr (ustr ''Automated notes generated; consider human review for final decision.'')"
proof -
  have c: "llm_client noise_env = Inr noise_generate"
    "read_principles (principles noise_env) = Inr []"
    "noise_generate (cap_answers (SUMMARY_ANSWER_CAP noise_env) (answers_of example_session)) []
     = Inr noise_text"
    using noise_llm_chain by simp_all
  have e: "safe_json_parse (json_loads noise_env) noise_text = PDict []"
    using noise_llm_chain by simp
  have "llm_summary noise_env example_session
        = (case coerce_schema (principles noise_env) (PDict []) (answers_of example_session) of
             Inl e \<Rightarrow> Inl e
           | Inr structured \<Rightarrow> Inr (render_markdown (format noise_env) structured, structured))"
    using llm_summary_chain [OF c] by (simp add: e)
  then obtain md r where l: "llm_summary noise_env example_session = Inr (md, r)"
    and r: "coerce_schema Missing (PDict []) (answers_of example_session) = Inr r"
    by (simp add: noise_env_simps example_coerced)
  have "summarize_session noise_env example_session = Inr (md, r)"
    by (simp add: summarize_session_def noise_env_simps l)
  with l coerce_schema_empty_evaluation [OF r] show ?thesis by blast
qed

text \<open>
  C4 (amended). In template mode the evaluation of the summary that \<open>summarize_session\<close>
  returns is a fixed literal of the source, one of two. When the model summaries are
  switched off or the model path fails, it is the literal that ends in
  \<open>Enable LLM summaries for richer evaluation.\<close> When the model path returns and the
  model supplies no evaluation, or a falsy one, or nothing is extracted from its
  response, it is \<open>Automated notes generated; consider human review for final decision.\<close>
  An evaluation that the model supplies and that is truthy is used as it is.
\<close>

theorem template_evaluation_literal:
  assumes "summarize_session E s = Inr (md, r)"
  shows "(\<not> USE_LLM_SUMMARY E \<or> (\<exists>e. llm_summary E s = Inl e) \<longrightarrow>
            evaluation r
            = PStr (ustr ''Template summary: Candidate provided responses. Enable LLM summaries for richer evaluation.''))
       \<and> (\<forall>gen principles_text response kvs.
            USE_LLM_SUMMARY E \<and> (\<exists>x. llm_summary E s = Inr x)
            \<and> llm_client E = Inr gen
            \<and> read_principles (principles E) = Inr principles_text
            \<and> gen (cap_answers (SUMMARY_ANSWER_CAP E) (answers_of s)) principles_text = Inr response
            \<and> safe_json_parse (json_loads E) response = PDict kvs \<longrightarrow>
            (truthy (dict_get kvs (ustr ''evaluation'')) \<longrightarrow>
               evaluation r = dict_get kvs (ustr ''evaluation''))
            \<and> (\<not> truthy (dict_get kvs (ustr ''evaluation'')) \<longrightarrow>
               evaluation r
               = PStr (ustr ''Automated notes generated; consider human review for final decision.'')))"
proof -
  have failed: "\<not> USE_LLM_SUMMARY E \<or> (\<exists>e. llm_summary E s = Inl e) \<longrightarrow>
            evaluation r
            = PStr (ustr ''Template summary: Candidate provided responses. Enable LLM summaries for richer evaluation.'')"
  proof
    assume "\<not> USE_LLM_SUMMARY E \<or> (\<exists>e. llm_summary E s = Inl e)"
    then have "summarize_session E s = template_summary E s"
      unfolding summarize_session_def by auto
    then show "evaluation r
            = PStr (ustr ''Template summary: Candidate provided responses. Enable LLM summaries for richer evaluation.'')"
      using assms template_summary_evaluation [of E s md r]
      by (simp add: template_literal_def)
  qed
  have returned: "\<forall>gen principles_text response kvs.
            USE_LLM_SUMMARY E \<and> (\<exists>x. llm_summary E s = Inr x)
            \<and> llm_client E = Inr gen
            \<and> read_principles (principles E) = Inr principles_text
            \<and> gen (cap_answers (SUMMARY_ANSWER_CAP E) (answers_of s)) principles_text = Inr response
            \<and> safe_json_parse (json_loads E) response = PDict kvs \<longrightarrow>
            (truthy (dict_get kvs (ustr ''evaluation'')) \<longrightarrow>
               evaluation r = dict_get kvs (ustr ''evaluation''))
            \<and> (\<not> truthy (dict_get kvs (ustr ''evaluation'')) \<longrightarrow>
               evaluation r
               = PStr (ustr ''Automated notes generated; consider human review for final decision.''))"
  proof (intro allI impI)
    fix gen principles_text response kvs
    assume h: "USE_LLM_SUMMARY E \<and> (\<exists>x. llm_summary E s = Inr x)
            \<and> llm_client E = Inr gen
            \<and> read_principles (principles E) = Inr principles_text
            \<and> gen (cap_answers (SUMMARY_ANSWER_CAP E) (answers_of s)) principles_text = Inr response
            \<and> safe_json_parse (json_loads E) response = PDict kvs"
    then have "llm_summary E s = Inr (md, r)"
      using assms unfolding summarize_session_def by auto
    from llm_summary_evaluation [OF this, of gen principles_text response kvs] h
    have "evaluation r = py_or (dict_get kvs (ustr ''evaluation''))
           (PStr (ustr ''Automated notes generated; consider human review for final decision.''))"
      by blast
    then show "(truthy (dict_get kvs (ustr ''evaluation'')) \<longrightarrow>
               evaluation r = dict_get kvs (ustr ''evaluation''))
            \<and> (\<not> truthy (dict_get kvs (ustr ''evaluation'')) \<longrightarrow>
               evaluation r
               = PStr (ustr ''Automated notes generated; consider human review for final decision.''))"
      by (simp add: py_or_def)
  qed
  from failed returned show ?thesis
    by (intro conjI)
qed

text \<open>
  The theorem at the end-to-end example, where the backend fails, and at the backend
  that answers \<open>not json at all\<close>, which supplies no evaluation.
\<close>

theorem template_evaluation_literal_witness:
  "(\<exists>e. llm_summary example_env example_session = Inl e)
   \<and> map_sum id (evaluation \<circ> snd) (summarize_session example_env example_session)
     = Inr (PStr (ustr ''Template summary: Candidate provided responses. Enable LLM summaries for richer evaluation.''))
   \<and> map_sum id (readiness_flag \<circ> snd) (summarize_session example_env example_session)
     = Inr (PStr (ustr ''date''))
   \<and> USE_LLM_SUMMARY noise_env
   \<and> (\<exists>x. llm_summary noise_env example_session = Inr x)
   \<and> llm_client noise_env = Inr noise_generate
   \<and> read_principles (principles noise_env) = Inr []
   \<and> noise_generate (cap_answers (SUMMARY_ANSWER_CAP noise_env) (answers_of example_session)) []
     = Inr noise_text
   \<and> safe_json_parse (json_loads noise_env) noise_text = PDict []
   \<and> \<not> truthy (dict_get [] (ustr ''evaluation''))
   \<and> map_sum id (evaluation \<circ> snd) (summarize_session noise_env example_session)
     = Inr (PStr (ustr ''Automated notes generated; consider human review for final decision.''))"
proof -
  obtain md r where mr: "summarize_session example_env example_session = Inr (md, r)"
    by (simp add: example_falls_back template_summary_def ex_env_simps example_coerced Let_def)
  have f: "\<exists>e. llm_summary example_env example_session = Inl e"
    using example_llm_fails by blast
  from template_evaluation_literal [OF mr, THEN conjunct1] f
  have "evaluation r =
      PStr (ustr ''Template summary: Candidate provided responses. Enable LLM summaries for richer evaluation.'')"
    by blast
  with mr have e1: "map_sum id (evaluation \<circ> snd) (summarize_session example_env example_session)
     = Inr (PStr (ustr ''Template summary: Candidate provided responses. Enable LLM summaries for richer evaluation.''))"
    by simp
  obtain md' r' where l: "llm_summary noise_env example_session = Inr (md', r')"
    and n: "summarize_session noise_env example_session = Inr (md', r')"
    using noise_llm_summary by blast
  have x: "\<exists>x. llm_summary noise_env example_session = Inr x"
    using l by blast
  have t: "\<not> truthy (dict_get [] (ustr ''evaluation''))"
    by (simp add: dict_get_def)
  have h: "USE_LLM_SUMMARY noise_env \<and> (\<exists>x. llm_summary noise_env example_session = Inr x)
            \<and> llm_client noise_env = Inr noise_generate
            \<and> read_principles (principles noise_env) = Inr []
            \<and> noise_generate (cap_answers (SUMMARY_ANSWER_CAP noise_env) (answers_of example_session)) []
              = Inr noise_text
            \<and> safe_json_parse (json_loads noise_env) noise_text = PDict []"
    using noise_env_simps(1) x noise_llm_chain by simp
  from template_evaluation_literal [OF n, THEN conjunct2, rule_format, OF h, THEN conjunct2] t
  have "evaluation r'
        = PStr (ustr ''Automated notes generated; consider human review for final decision.'')"
    by simp
  with n have e2: "map_sum id (evaluation \<circ> snd) (summarize_session noise_env example_session)
     = Inr (PStr (ustr ''Automated notes generated; consider human review for final decision.''))"
    by simp
  from f e1 example_summary noise_env_simps(1) x noise_llm_chain t e2 show ?thesis
    by (intro conjI) simp_all
qed

text \<open>
  C4 as stated fails: neither the evaluation of the end-to-end example nor the
  evaluation when the model supplies none is the literal that the specification gives.
\<close>

theorem template_evaluation_not_spec_literal:
  "map_sum id (evaluation \<circ> snd) (summarize_session example_env example_session)
     = Inr (PStr (ustr ''Template summary: Candidate provided responses. Enable LLM summaries for richer evaluation.''))
   \<and> map_sum id (evaluation \<circ> snd) (summarize_session noise_env example_session)
     = Inr (PStr (ustr ''Automated notes generated; consider human review for final decision.''))
   \<and> ustr ''Template summary: Candidate provided responses. Enable LLM summaries for richer evaluation.''
     \<noteq> ustr ''Template summary: Candidate provided responses. Enable richer evaluation via the model backend.''
   \<and> ustr ''Automated notes generated; consider human review for final decision.''
     \<noteq> ustr ''Template summary: Candidate provided responses. Enable richer evaluation via the model backend.''"
proof -
  have e1: "map_sum id (evaluation \<circ> snd) (summarize_session example_env example_session)
     = Inr (PStr (ustr ''Template summary: Candidate provided responses. Enable LLM summaries for richer evaluation.''))"
    by (simp add: example_falls_back template_summary_def ex_env_simps example_coerced Let_def
        template_literal_def)
  obtain md r where "summarize_session noise_env example_session = Inr (md, r)"
    and "evaluation r
         = PStr (ustr ''Automated notes generated; consider human review for final decision.'')"
    using noise_llm_summary by blast
  then have e2: "map_sum id (evaluation \<circ> snd) (summarize_session noise_env example_session)
     = Inr (PStr (ustr ''Automated notes generated; consider human review for final decision.''))"
    by simp
  have d1: "ustr ''Template summary: Candidate provided responses. Enable LLM summaries for richer evaluation.''
     \<noteq> ustr ''Template summary: Candidate provided responses. Enable richer evaluation via the model backend.''"
    by (simp add: ustr_def)
  have d2: "ustr ''Automated notes generated; consider human review for final decision.''
     \<noteq> ustr ''Template summary: Candidate provided responses. Enable richer evaluation via the model backend.''"
    by (simp add: ustr_def)
  from e1 e2 d1 d2 show ?thesis
    by (intro conjI)
qed

section \<open>The principles alignment and the notes\<close>

lemma dict_set_keys_present:
  "k \<in> fst ` set d \<Longrightarrow> map fst (dict_set d k v) = map fst d"
proof (induction d)
  case Nil
  then show ?case by simp
next
  case (Cons x d)
  show ?case
  proof (cases "fst x = k")
    case True
    then show ?thesis by (cases x) simp
  next
    case False
    with Cons.prems have "k \<in> fst ` set d" by auto
    with Cons.IH False show ?thesis by (cases x) simp
  qed
qed

lemma dict_set_keys_new:
  "k \<notin> fst ` set d \<Longrightarrow> map fst (dict_set d k v) = map fst d @ [k]"
  by (induction d) auto

lemma dict_set_keys:
  "map fst (dict_set d k v) = (if k \<in> set (map fst d) then map fst d else map fst d @ [k])"
  using dict_set_keys_present [of k d v] dict_set_keys_new [of k d v] by simp

lemma map_of_dict_set: "map_of (dict_set d k v) = (map_of d)(k \<mapsto> v)"
  by (induction d) (auto simp: fun_eq_iff)

lemma dict_comp_snoc: "dict_comp f (ks @ [k]) = dict_set (dict_comp f ks) k (f k)"
  by (simp add: dict_comp_def)

lemma dict_comp_keys: "map fst (dict_comp f ks) = rev (remdups (rev ks))"
proof (induction ks rule: rev_induct)
  case Nil
  show ?case by (simp add: dict_comp_def)
next
  case (snoc k ks)
  have "set (map fst (dict_comp f ks)) = set ks"
    unfolding snoc.IH by simp
  then show ?case
    by (simp add: dict_comp_snoc dict_set_keys snoc.IH)
qed

lemma dict_comp_value:
  "map_of (dict_comp f ks) k = (if k \<in> set ks then Some (f k) else None)"
proof (induction ks rule: rev_induct)
  case Nil
  show ?case by (simp add: dict_comp_def)
next
  case (snoc x xs)
  then show ?case
    by (simp add: dict_comp_snoc map_of_dict_set)
qed

text \<open>
  C7 (amended). When the coercion returns, the keys of \<open>principles_alignment\<close> are the
  principle names parsed from the principles text, each once, at the place of its first
  occurrence (a mapping holds a key once, so a name listed twice gives one key; the
  list below is the names without their later repetitions). Each name is mapped to the
  evidence the model supplies under that exact name when it is there and truthy, and to
  the empty string when the model's mapping does not hold the name, holds the empty
  string for it, or the model supplies no mapping. Evidence that is falsy and not a
  string is left out of the statement.
\<close>

theorem principles_alignment_keys:
  assumes "coerce_schema pf (PDict kvs) a = Inr r"
    and "read_principles pf = Inr md"
  shows "map fst (principles_alignment r) = rev (remdups (rev (principle_names md)))
       \<and> (\<forall>pa. dict_get kvs (ustr ''principles_alignment'') = PDict pa \<longrightarrow>
              (\<forall>name \<in> set (principle_names md).
                 (map_of pa name = None \<longrightarrow>
                    map_of (principles_alignment r) name = Some (PStr []))
                 \<and> (\<forall>v. map_of pa name = Some v \<and> truthy v \<longrightarrow>
                    map_of (principles_alignment r) name = Some v)
                 \<and> (map_of pa name = Some (PStr []) \<longrightarrow>
                    map_of (principles_alignment r) name = Some (PStr []))))
       \<and> (\<not> truthy (dict_get kvs (ustr ''principles_alignment'')) \<longrightarrow>
              (\<forall>name \<in> set (principle_names md).
                 map_of (principles_alignment r) name = Some (PStr [])))"
proof -
  from coerce_schema_Inr [OF assms(1)] assms(2) have
    pa: "principles_alignment r =
           (case py_or (dict_get kvs (ustr ''principles_alignment'')) (PDict []) of
              PDict pa \<Rightarrow> dict_comp (\<lambda>name. dict_get_default pa name (PStr [])) (principle_names md)
            | _ \<Rightarrow> [])"
    by auto
  have ok: "(\<exists>d. py_or (dict_get kvs (ustr ''principles_alignment'')) (PDict []) = PDict d)
            \<or> principle_names md = []"
    using assms unfolding coerce_schema_def Let_def
    by (auto split: pyval.splits sum.splits if_splits)
  have keys: "map fst (principles_alignment r) = rev (remdups (rev (principle_names md)))"
    using ok unfolding pa by (auto simp: dict_comp_keys split: pyval.splits)
  have given: "map_of (principles_alignment r) name
               = Some (case map_of d name of None \<Rightarrow> PStr [] | Some v \<Rightarrow> v)"
    if "dict_get kvs (ustr ''principles_alignment'') = PDict d"
      and "name \<in> set (principle_names md)" for d name
    using that unfolding pa
    by (cases "d = []") (simp_all add: py_or_def dict_comp_value dict_get_default_def)
  have supplied: "\<forall>pa. dict_get kvs (ustr ''principles_alignment'') = PDict pa \<longrightarrow>
              (\<forall>name \<in> set (principle_names md).
                 (map_of pa name = None \<longrightarrow>
                    map_of (principles_alignment r) name = Some (PStr []))
                 \<and> (\<forall>v. map_of pa name = Some v \<and> truthy v \<longrightarrow>
                    map_of (principles_alignment r) name = Some v)
                 \<and> (map_of pa name = Some (PStr []) \<longrightarrow>
                    map_of (principles_alignment r) name = Some (PStr [])))"
    using given by simp
  have absent: "\<not> truthy (dict_get kvs (ustr ''principles_alignment'')) \<longrightarrow>
              (\<forall>name \<in> set (principle_names md).
                 map_of (principles_alignment r) name = Some (PStr []))"
    unfolding pa by (simp add: py_or_def dict_comp_value dict_get_default_def)
  from keys supplied absent show ?thesis
    by (intro conjI)
qed

lemma two_principles_names:
  "principle_names (strip two_principles) = [ustr ''Curiosity'', ustr ''Grit'']"
  by (simp add: principle_names_def two_principles_def splitlines_def is_linebreak_def
      principle_of_line_def list_marker_def strip_def lstrip_def rstrip_def is_space_def
      List.map_filter_def ustr_def)

lemma twice_grit_names: "principle_names (strip twice_grit) = [ustr ''Grit'', ustr ''Grit'']"
  by (simp add: principle_names_def twice_grit_def splitlines_def is_linebreak_def
      principle_of_line_def list_marker_def strip_def lstrip_def rstrip_def is_space_def
      List.map_filter_def ustr_def)

text \<open>
  The theorem at the two principles of the specification's example with evidence from
  the model for one of them, and at a principles text that lists \<open>Grit\<close> twice with no
  evidence from the model.
\<close>

theorem principles_alignment_keys_witness:
  "(\<exists>r. coerce_schema (Content two_principles)
          (PDict [(ustr ''principles_alignment'', PDict [(ustr ''Grit'', PStr (ustr ''kept going''))])]) []
        = Inr r
      \<and> read_principles (Content two_principles) = Inr (strip two_principles)
      \<and> map fst (principles_alignment r) = [ustr ''Curiosity'', ustr ''Grit'']
      \<and> map_of (principles_alignment r) (ustr ''Curiosity'') = Some (PStr [])
      \<and> map_of (principles_alignment r) (ustr ''Grit'') = Some (PStr (ustr ''kept going'')))
   \<and> (\<exists>r. coerce_schema (Content twice_grit) (PDict []) [] = Inr r
      \<and> read_principles (Content twice_grit) = Inr (strip twice_grit)
      \<and> \<not> truthy (dict_get [] (ustr ''principles_alignment''))
      \<and> map fst (principles_alignment r) = [ustr ''Grit'']
      \<and> map_of (principles_alignment r) (ustr ''Grit'') = Some (PStr []))"
proof -
  let ?pa = "[(ustr ''Grit'', PStr (ustr ''kept going''))]"
  let ?kvs = "[(ustr ''principles_alignment'', PDict ?pa)]"
  have g: "dict_get ?kvs (ustr ''principles_alignment'') = PDict ?pa"
    by (simp add: dict_get_def)
  have n: "(\<exists>d. dict_get ?kvs (ustr ''notes'') = PDict d) \<or> \<not> truthy (dict_get ?kvs (ustr ''notes''))"
    by (simp add: dict_get_def ustr_def)
  have g': "(\<exists>d. dict_get ?kvs (ustr ''principles_alignment'') = PDict d)
            \<or> \<not> truthy (dict_get ?kvs (ustr ''principles_alignment''))"
    using g by simp
  have u: "Content two_principles \<noteq> Unreadable"
    by simp
  from coerce_schema_succeeds [OF n g' u, of "[]"]
  obtain r where r: "coerce_schema (Content two_principles) (PDict ?kvs) [] = Inr r" ..
  have p: "read_principles (Content two_principles) = Inr (strip two_principles)"
    by (simp add: read_principles_def)
  have m1: "map_of ?pa (ustr ''Curiosity'') = None"
    by (simp add: ustr_def)
  have m2: "map_of ?pa (ustr ''Grit'') = Some (PStr (ustr ''kept going''))
            \<and> truthy (PStr (ustr ''kept going''))"
    by (simp add: ustr_def)
  note t = principles_alignment_keys [OF r p]
  from t [THEN conjunct1]
  have k: "map fst (principles_alignment r) = [ustr ''Curiosity'', ustr ''Grit'']"
    by (simp add: two_principles_names ustr_def)
  note v = t [THEN conjunct2, THEN conjunct1, THEN spec, THEN mp, OF g]
  have c1: "ustr ''Curiosity'' \<in> set (principle_names (strip two_principles))"
    by (simp add: two_principles_names)
  have c2: "ustr ''Grit'' \<in> set (principle_names (strip two_principles))"
    by (simp add: two_principles_names)
  note q1 = bspec [OF v c1]
  note q2 = bspec [OF v c2]
  have v1: "map_of (principles_alignment r) (ustr ''Curiosity'') = Some (PStr [])"
    by (rule mp [OF q1 [THEN conjunct1] m1])
  have v2: "map_of (principles_alignment r) (ustr ''Grit'') = Some (PStr (ustr ''kept going''))"
    by (rule mp [OF spec [OF q2 [THEN conjunct2, THEN conjunct1]] m2])
  have first: "\<exists>r. coerce_schema (Content two_principles) (PDict ?kvs) [] = Inr r
      \<and> read_principles (Content two_principles) = Inr (strip two_principles)
      \<and> map fst (principles_alignment r) = [ustr ''Curiosity'', ustr ''Grit'']
      \<and> map_of (principles_alignment r) (ustr ''Curiosity'') = Some (PStr [])
      \<and> map_of (principles_alignment r) (ustr ''Grit'') = Some (PStr (ustr ''kept going''))"
    using r p k v1 v2 by (intro exI [of _ r] conjI)
  have f: "\<not> truthy (dict_get [] (ustr ''principles_alignment''))"
    by (simp add: dict_get_def)
  have u': "Content twice_grit \<noteq> Unreadable"
    by simp
  from coerce_schema_empty_raw [OF u', of "[]"]
  obtain r' where r': "coerce_schema (Content twice_grit) (PDict []) [] = Inr r'" ..
  have p': "read_principles (Content twice_grit) = Inr (strip twice_grit)"
    by (simp add: read_principles_def)
  note t' = principles_alignment_keys [OF r' p']
  from t' [THEN conjunct1]
  have k': "map fst (principles_alignment r') = [ustr ''Grit'']"
    by (simp add: twice_grit_names)
  note a = mp [OF t' [THEN conjunct2, THEN conjunct2] f]
  have cg: "ustr ''Grit'' \<in> set (principle_names (strip twice_grit))"
    by (simp add: twice_grit_names)
  have v': "map_of (principles_alignment r') (ustr ''Grit'') = Some (PStr [])"
    by (rule bspec [OF a cg])
  have second: "\<exists>r. coerce_schema (Content twice_grit) (PDict []) [] = Inr r
      \<and> read_principles (Content twice_grit) = Inr (strip twice_grit)
      \<and> \<not> truthy (dict_get [] (ustr ''principles_alignment''))
      \<and> map fst (principles_alignment r) = [ustr ''Grit'']
      \<and> map_of (principles_alignment r) (ustr ''Grit'') = Some (PStr [])"
    using r' p' f k' v' by (intro exI [of _ r'] conjI)
  from first second show ?thesis
    by (intro conjI)
qed

text \<open>
  C7 as stated fails: two list items of the same name are two parsed names and one key.
\<close>

theorem principles_alignment_deduplicated:
  "principle_names (strip twice_grit) = [ustr ''Grit'', ustr ''Grit'']
   \<and> map_sum id (map fst \<circ> principles_alignment)
       (coerce_schema (Content twice_grit) (PDict []) [])
     = Inr [ustr ''Grit'']"
  by (simp add: coerce_schema_def read_principles_def twice_grit_names Let_def dict_get_def
      py_or_def dict_comp_def dict_get_default_def ustr_def)

lemma length_rstrip: "length (rstrip t) \<le> length t"
  using length_dropWhile_le [of is_space "rev t"] by (simp add: rstrip_def)

lemma shorten_short:
  "length (strip t) \<le> 220 \<Longrightarrow> shorten t 220 = strip t"
  by (simp add: shorten_def Let_def strip_def lstrip_def rstrip_def)

lemma shorten_long:
  "220 < length (strip t) \<Longrightarrow> shorten t 220 = rstrip (take 220 (strip t)) @ [8230]"
  by (auto simp: shorten_def Let_def py_prefix_def strip_def lstrip_def rstrip_def)

lemma length_shorten: "length (shorten t 220) \<le> 221"
proof (cases "length (strip t) \<le> 220")
  case True
  then show ?thesis by (simp add: shorten_short)
next
  case False
  then have "shorten t 220 = rstrip (take 220 (strip t)) @ [8230]"
    by (simp add: shorten_long)
  moreover have "length (rstrip (take 220 (strip t))) \<le> 220"
    using length_rstrip [of "take 220 (strip t)"] by simp
  ultimately show ?thesis by simp
qed

text \<open>
  C8 (amended). When the coercion returns, each note is the note the model supplies
  under that key when it is truthy, taken as it is whatever its length, and otherwise
  the shortened answer, which has 221 characters at most: the stripped answer when that
  has 220 characters at most, and else its first 220 characters, stripped on the right,
  followed by the ellipsis.
\<close>

theorem notes_short:
  assumes "coerce_schema pf (PDict kvs) a = Inr r"
    and "(k, v) \<in> set (summary_notes r)"
  shows "\<exists>ks nkv. (k, ks) \<in> set semantic_keys
           \<and> py_or (dict_get kvs (ustr ''notes'')) (PDict []) = PDict nkv
           \<and> (if truthy (dict_get nkv k) then v = dict_get nkv k
              else v = PStr (shorten (pick a ks) 220)
                   \<and> length (shorten (pick a ks) 220) \<le> 221
                   \<and> (length (strip (pick a ks)) \<le> 220 \<longrightarrow>
                        shorten (pick a ks) 220 = strip (pick a ks))
                   \<and> (220 < length (strip (pick a ks)) \<longrightarrow>
                        shorten (pick a ks) 220
                        = rstrip (take 220 (strip (pick a ks))) @ [8230]))"
proof -
  from coerce_schema_Inr [OF assms(1)] obtain nkv where
    n: "py_or (dict_get kvs (ustr ''notes'')) (PDict []) = PDict nkv"
    and sn: "summary_notes r =
          map (\<lambda>(k, ks). (k, py_or (dict_get nkv k) (PStr (shorten (pick a ks) 220))))
            semantic_keys"
    by auto
  from assms(2) obtain ks where ks: "(k, ks) \<in> set semantic_keys"
    and v: "v = py_or (dict_get nkv k) (PStr (shorten (pick a ks) 220))"
    unfolding sn by auto
  show ?thesis
    using ks n v length_shorten [of "pick a ks"] shorten_short [of "pick a ks"]
      shorten_long [of "pick a ks"]
    by (intro exI [of _ ks] exI [of _ nkv]) (simp add: py_or_def)
qed

lemma rstrip_replicate:
  "\<not> is_space c \<Longrightarrow> rstrip (replicate n c) = replicate n c"
  by (cases n) (simp_all add: rstrip_def replicate_append_same)

lemma strip_replicate:
  "\<not> is_space c \<Longrightarrow> strip (replicate n c) = replicate n c"
  by (cases n) (simp_all add: strip_def lstrip_def rstrip_def replicate_append_same)

lemma not_space_a: "\<not> is_space 97"
  by (simp add: is_space_def)

lemma shorten_long_answer: "shorten (replicate 221 97) 220 = replicate 220 97 @ [8230]"
proof -
  have "shorten (replicate 221 97) 220
        = rstrip (take 220 (strip (replicate 221 97))) @ [8230]"
    by (rule shorten_long) (simp add: strip_replicate not_space_a)
  also have "take 220 (strip (replicate 221 97)) = replicate 220 (97::nat)"
    by (simp add: strip_replicate not_space_a)
  also have "rstrip (replicate 220 (97::nat)) = replicate 220 97"
    by (rule rstrip_replicate [OF not_space_a])
  finally show ?thesis .
qed

lemma long_answer_picks:
  "pick [(ustr ''background'', Some (replicate 221 97))]
     [ustr ''background'', ustr ''full_name_background''] = replicate 221 97"
  "pick [(ustr ''background'', Some (replicate 221 97))]
     [ustr ''why_lunartech'', ustr ''motivation''] = []"
  "pick [(ustr ''background'', Some (replicate 221 97))] [ustr ''experience''] = []"
  "pick [(ustr ''background'', Some (replicate 221 97))]
     [ustr ''future_goals'', ustr ''goals''] = []"
  "pick [(ustr ''background'', Some (replicate 221 97))] [ustr ''readiness''] = []"
  by (simp_all add: answers_get_def ustr_def)

lemma shorten_empty: "shorten [] n = []"
  by (simp add: shorten_def)

lemma long_answer_coerced:
  "coerce_schema Missing (PDict []) [(ustr ''background'', Some (replicate 221 97))]
   = Inr \<lparr>raw_answers =
            [(ustr ''background'', replicate 221 97), (ustr ''why_lunartech'', []),
             (ustr ''experience'', []), (ustr ''future_goals'', []),
             (ustr ''readiness'', [])],
          summary_notes =
            [(ustr ''background'', PStr (replicate 220 97 @ [8230])),
             (ustr ''why_lunartech'', PStr []),
             (ustr ''experience'', PStr []),
             (ustr ''future_goals'', PStr []),
             (ustr ''readiness'', PStr [])],
          evaluation =
            PStr (ustr ''Automated notes generated; consider human review for final decision.''),
          suitability = ustr ''weak'',
          readiness_flag = PStr (ustr ''unknown''),
          principles_alignment = []\<rparr>"
  unfolding coerce_schema_def semantic_keys_def
  by (simp add: long_answer_picks shorten_empty shorten_long_answer dict_get_def py_or_def
        read_principles_def readiness_inference_def coerce_suitability_def
        suitability_heuristic_def principle_names_def dict_comp_def List.map_filter_def Let_def
        del: pick.simps)

text \<open>The theorem at an answer of 221 letters and no note from the model.\<close>

theorem notes_short_witness:
  "\<exists>r. coerce_schema Missing (PDict []) [(ustr ''background'', Some (replicate 221 97))] = Inr r
      \<and> (ustr ''background'', PStr (replicate 220 97 @ [8230])) \<in> set (summary_notes r)
      \<and> (\<exists>ks nkv. (ustr ''background'', ks) \<in> set semantic_keys
            \<and> py_or (dict_get [] (ustr ''notes'')) (PDict []) = PDict nkv
            \<and> \<not> truthy (dict_get nkv (ustr ''background''))
            \<and> length (shorten (pick [(ustr ''background'', Some (replicate 221 97))] ks) 220)
                \<le> 221)"
proof -
  let ?a = "[(ustr ''background'', Some (replicate 221 97))]"
  obtain r where r: "coerce_schema Missing (PDict []) ?a = Inr r"
    and m: "(ustr ''background'', PStr (replicate 220 97 @ [8230])) \<in> set (summary_notes r)"
    by (simp add: long_answer_coerced)
  from notes_short [OF r m] obtain ks nkv where
    k: "(ustr ''background'', ks) \<in> set semantic_keys"
    and n: "py_or (dict_get [] (ustr ''notes'')) (PDict []) = PDict nkv"
    and c: "if truthy (dict_get nkv (ustr ''background''))
            then PStr (replicate 220 97 @ [8230]) = dict_get nkv (ustr ''background'')
            else PStr (replicate 220 97 @ [8230]) = PStr (shorten (pick ?a ks) 220)
                 \<and> length (shorten (pick ?a ks) 220) \<le> 221
                 \<and> (length (strip (pick ?a ks)) \<le> 220 \<longrightarrow>
                      shorten (pick ?a ks) 220 = strip (pick ?a ks))
                 \<and> (220 < length (strip (pick ?a ks)) \<longrightarrow>
                      shorten (pick ?a ks) 220
                      = rstrip (take 220 (strip (pick ?a ks))) @ [8230])"
    by blast
  from n have e: "nkv = []"
    by (simp add: dict_get_def py_or_def)
  then have t: "\<not> truthy (dict_get nkv (ustr ''background''))"
    by (simp add: dict_get_def)
  with c have "length (shorten (pick ?a ks) 220) \<le> 221"
    by simp
  with r m k n t show ?thesis
    by (intro exI [of _ r] conjI exI [of _ ks] exI [of _ nkv]) simp_all
qed

text \<open>
  C8 as stated fails: the note derived from an answer of 221 letters is 220 letters and
  the ellipsis, which is 221 characters.
\<close>

theorem note_of_221_characters:
  "map_sum id summary_notes
     (coerce_schema Missing (PDict []) [(ustr ''background'', Some (replicate 221 97))])
   = Inr [(ustr ''background'', PStr (replicate 220 97 @ [8230])),
          (ustr ''why_lunartech'', PStr []),
          (ustr ''experience'', PStr []),
          (ustr ''future_goals'', PStr []),
          (ustr ''readiness'', PStr [])]
   \<and> length (replicate 220 (97::nat) @ [8230]) = 221"
  by (simp add: long_answer_coerced)

section \<open>The raw answers\<close>

lemma pick_verbatim:
  "pick a ks = [] \<or> (\<exists>k \<in> set ks. answers_get a k = Some (pick a ks))"
  by (induction ks) (auto split: option.splits)

lemma pick_first_nonempty:
  "pick a ks =
     (case List.find (\<lambda>k. answers_get a k \<noteq> None \<and> answers_get a k \<noteq> Some []) ks of
        None \<Rightarrow> []
      | Some k \<Rightarrow> the (answers_get a k))"
  by (induction ks) (auto split: option.splits)

lemma llm_summary_raw_answers:
  assumes "llm_summary E s = Inr (md, r)"
  shows "raw_answers r = map (\<lambda>(k, ks). (k, pick (answers_of s) ks)) semantic_keys"
proof -
  from assms obtain raw where "coerce_schema (principles E) raw (answers_of s) = Inr r"
    unfolding llm_summary_def Let_def by (auto split: sum.splits)
  from coerce_schema_Inr [OF this] show ?thesis by auto
qed

lemma template_summary_raw_answers:
  assumes "template_summary E s = Inr (md, r)"
  shows "raw_answers r = map (\<lambda>(k, ks). (k, pick (answers_of s) ks)) semantic_keys"
proof -
  from assms obtain r0 where c: "coerce_schema (principles E) (PDict []) (answers_of s) = Inr r0"
    and r: "r = r0\<lparr>evaluation := PStr template_literal\<rparr>"
    unfolding template_summary_def Let_def by (auto split: sum.splits)
  from coerce_schema_Inr [OF c] r show ?thesis by auto
qed

lemma summarize_session_raw_answers:
  assumes "summarize_session E s = Inr (md, r)"
  shows "raw_answers r = map (\<lambda>(k, ks). (k, pick (answers_of s) ks)) semantic_keys"
  using assms summarize_session_cases [of E s] llm_summary_raw_answers [of E s md r]
    template_summary_raw_answers [of E s md r]
  by auto

text \<open>
  C9. Whatever the cap, the model and its output, the \<open>raw_answers\<close> of the record that
  the model path or \<open>summarize_session\<close> returns are taken from the answers of the
  session as they are, not from the capped answers of the prompt: each of the five keys
  holds the answer under the first of its source keys that has a non-empty answer, and
  the empty string when none has.
\<close>

theorem raw_answers_uncapped:
  assumes "llm_summary E s = Inr (md, r) \<or> summarize_session E s = Inr (md, r)"
  shows "raw_answers r =
           [(ustr ''background'',
               pick (answers_of s) [ustr ''background'', ustr ''full_name_background'']),
            (ustr ''why_lunartech'',
               pick (answers_of s) [ustr ''why_lunartech'', ustr ''motivation'']),
            (ustr ''experience'', pick (answers_of s) [ustr ''experience'']),
            (ustr ''future_goals'',
               pick (answers_of s) [ustr ''future_goals'', ustr ''goals'']),
            (ustr ''readiness'', pick (answers_of s) [ustr ''readiness''])]
       \<and> (\<forall>ks. pick (answers_of s) ks =
                 (case List.find (\<lambda>k. answers_get (answers_of s) k \<noteq> None
                                      \<and> answers_get (answers_of s) k \<noteq> Some []) ks of
                    None \<Rightarrow> []
                  | Some k \<Rightarrow> the (answers_get (answers_of s) k)))"
proof -
  have "raw_answers r = map (\<lambda>(k, ks). (k, pick (answers_of s) ks)) semantic_keys"
    using assms llm_summary_raw_answers summarize_session_raw_answers by blast
  then show ?thesis
    using pick_first_nonempty by (simp add: semantic_keys_def)
qed

lemma capped_env_simps:
  "USE_LLM_SUMMARY capped_env" "principles capped_env = Missing"
  "llm_client capped_env = Inr empty_object_generate"
  "json_loads capped_env = small_loads" "SUMMARY_ANSWER_CAP capped_env = 5"
  by (simp_all add: capped_env_def)

lemma long_session_answers:
  "answers_of long_session = [(ustr ''experience'', Some (ustr ''ten years of Python''))]"
  by (simp add: answers_of_def long_session_def)

lemma long_session_capped:
  "cap_answers (SUMMARY_ANSWER_CAP capped_env) (answers_of long_session)
   = [(ustr ''experience'', ustr ''ten y'' @ [8230])]"
  by (simp add: capped_env_simps long_session_answers cap_answers_def List.map_filter_def
      cap_text_def Let_def strip_def lstrip_def rstrip_def is_space_def py_prefix_def ustr_def)

lemma empty_object_parsed: "safe_json_parse small_loads (ustr ''{}'') = PDict []"
  by (simp add: safe_json_parse_def small_loads_def ustr_def)

lemma capped_llm_summary: "\<exists>md r. llm_summary capped_env long_session = Inr (md, r)"
proof -
  obtain r where "coerce_schema Missing (PDict []) (answers_of long_session) = Inr r"
    using coerce_schema_empty_raw [of Missing] by blast
  then show ?thesis
    by (simp add: llm_summary_def capped_env_simps read_principles_def
        empty_object_generate_def empty_object_parsed Let_def)
qed

lemma long_session_picks:
  "pick (answers_of long_session) [ustr ''background'', ustr ''full_name_background''] = []"
  "pick (answers_of long_session) [ustr ''why_lunartech'', ustr ''motivation''] = []"
  "pick (answers_of long_session) [ustr ''experience''] = ustr ''ten years of Python''"
  "pick (answers_of long_session) [ustr ''future_goals'', ustr ''goals''] = []"
  "pick (answers_of long_session) [ustr ''readiness''] = []"
  by (simp_all add: long_session_answers answers_get_def ustr_def)

text \<open>
  The theorem with a cap of five characters: the prompt gets the answer cut to five
  characters and the ellipsis, the record holds the whole answer.
\<close>

theorem raw_answers_uncapped_witness:
  "cap_answers (SUMMARY_ANSWER_CAP capped_env) (answers_of long_session)
   = [(ustr ''experience'', ustr ''ten y'' @ [8230])]
   \<and> (\<exists>md r. llm_summary capped_env long_session = Inr (md, r)
         \<and> raw_answers r =
             [(ustr ''background'', []), (ustr ''why_lunartech'', []),
              (ustr ''experience'', ustr ''ten years of Python''),
              (ustr ''future_goals'', []), (ustr ''readiness'', [])])"
proof -
  obtain md r where l: "llm_summary capped_env long_session = Inr (md, r)"
    using capped_llm_summary by blast
  then have "llm_summary capped_env long_session = Inr (md, r)
             \<or> summarize_session capped_env long_session = Inr (md, r)"
    by simp
  from raw_answers_uncapped [OF this]
  have "raw_answers r =
             [(ustr ''background'', []), (ustr ''why_lunartech'', []),
              (ustr ''experience'', ustr ''ten years of Python''),
              (ustr ''future_goals'', []), (ustr ''readiness'', [])]"
    by (simp add: long_session_picks del: pick.simps)
  with l long_session_capped show ?thesis by blast
qed

section \<open>The brace scan\<close>

lemma unbalanced_positions:
  "positions 123 unbalanced_text = [0, 2]" "positions 125 unbalanced_text = [8]"
  by (simp_all add: positions_def unbalanced_text_def a1_text_def upt_rec [of _ "numeral _"] upt_rec [of 0])

lemma unbalanced_candidates:
  "brace_candidates unbalanced_text = [unbalanced_text]"
  "spec_candidates unbalanced_text = [unbalanced_text, a1_text]"
  by (simp_all add: brace_candidates_def spec_candidates_def unbalanced_positions py_slice_def Let_def
        upt_rec [of _ "numeral _"] upt_rec [of 0])
     (simp_all add: unbalanced_text_def a1_text_def)

lemma unbalanced_no_fence: "fenced_candidate unbalanced_text = None"
  by (simp add: fenced_candidate_def fence_def unbalanced_text_def a1_text_def)

lemma unbalanced_loads:
  "small_loads unbalanced_text = None" "small_loads (strip unbalanced_text) = None"
  "small_loads a1_text = Some (PDict [(ustr ''a'', PInt 1)])"
  by (simp_all add: small_loads_def unbalanced_text_def a1_text_def strip_def lstrip_def rstrip_def
      is_space_def ustr_def)

text \<open>The three strategies of \<open>_extract_json_block\<close>, the first success winning.\<close>

lemma extract_json_block_order:
  assumes "text \<noteq> []"
  shows "fenced_candidate text = Some cand \<Longrightarrow> loads cand \<noteq> None \<Longrightarrow>
           extract_json_block loads text = Some cand"
    and "fenced_candidate text = None \<or> (\<exists>cand. fenced_candidate text = Some cand \<and> loads cand = None) \<Longrightarrow>
           List.find (\<lambda>t. loads t \<noteq> None) (brace_candidates text) = Some t \<Longrightarrow>
           extract_json_block loads text = Some t"
    and "fenced_candidate text = None \<or> (\<exists>cand. fenced_candidate text = Some cand \<and> loads cand = None) \<Longrightarrow>
           List.find (\<lambda>t. loads t \<noteq> None) (brace_candidates text) = None \<Longrightarrow>
           extract_json_block loads text
           = (if loads (strip text) \<noteq> None then Some (strip text) else None)"
  using assms by (auto simp: extract_json_block_def)

text \<open>
  C5 (the code departs from it). On the text \<open>{ {"a":1}\<close> the specification's scan
  pairs the second opening brace, at position 2, with the closing brace at position 8
  and finds the object \<open>{"a":1}\<close>. The loops of \<open>_extract_json_block\<close> compare the
  number of the opening brace with the number of the closing brace, not their
  positions: for the second opening brace they look at the closing braces from the
  second one on, of which there is none. Nothing is extracted and \<open>_safe_json_parse\<close>
  returns the empty mapping.
\<close>

theorem brace_scan_by_ordinal:
  "extract_json_block small_loads unbalanced_text = None
   \<and> safe_json_parse small_loads unbalanced_text = PDict []
   \<and> spec_extract small_loads unbalanced_text = Some a1_text"
  by (simp add: extract_json_block_def safe_json_parse_def spec_extract_def unbalanced_no_fence
      unbalanced_candidates unbalanced_loads decodes_object_def)

section \<open>The cache of the model client\<close>

text \<open>A text without a carriage return is read back from the cache as it was written.\<close>

lemma read_write_newlines:
  "13 \<notin> set t \<Longrightarrow> read_newlines (write_newlines pl t) = t"
  by (induction t) (auto simp: write_newlines_def linesep_def split: platform.splits)


lemma cache_get_hit:
  assumes "cache_path S p m = Inr path" and "files w path = Some (Readable stored)"
  shows "cache_get S w p m = Inr (Some (read_newlines stored))"
  using assms by (simp add: cache_get_def)



lemma generate_cached:
  "cache_get S w p (key_model c) = Inr (Some t) \<Longrightarrow> generate S c p w = (Inr t, w)"
  by (simp add: generate_def)








lemma generate_miss_fallback:
  assumes "fm \<noteq> []" and "cache_get S w p pm = Inr None"
    and "api S (length (calls w)) pm p = Inl e"
    and "api S (Suc (length (calls w))) fm p = Inr t"
  shows "generate S (OpenAI pm fm) p w
         = (Inr t, cache_set S (w\<lparr>calls := calls w @ [(pm, p), (fm, p)]\<rparr>) p pm t)"
  using assms by (simp add: generate_def key_model_def call_api_def)

lemma cache_get_missing:
  assumes "cache_path S p m = Inr path" and "files w path = None"
  shows "cache_get S w p m = Inr None"
  using assms by (simp add: cache_get_def)

lemma cache_set_unwritable:
  assumes "cache_path S p m = Inr path" and "\<not> writable w path"
  shows "cache_set S w p m t = w"
  using assms by (simp add: cache_set_def)

lemma cache_set_written:
  assumes "cache_path S p m = Inr path" and "writable w path" and "encodable t"
  shows "files (cache_set S w p m t) = (files w)(path \<mapsto> Readable (write_newlines (os_platform S) t))"
  using assms by (simp add: cache_set_def)

lemma encodable_ustr_examples:
  "encodable (ustr ''gpt-4o-mini'' @ [10] @ example_prompt)"
  "encodable (ustr ''mistral-medium-latest'' @ [10] @ example_prompt)"
  "encodable (ustr ''{}'')" "encodable crlf_text" "encodable (ustr ''first'')"
  by (simp_all add: encodable_def example_prompt_def crlf_text_def ustr_def)

lemma example_paths:
  assumes "os_platform S = Posix" and "sha256_hex S = plain_hash"
  shows "cache_path S example_prompt (ustr ''gpt-4o-mini'')
         = Inr (ustr ''.llm_cache'' @ [47] @ (ustr ''gpt-4o-mini'' @ [10] @ example_prompt)
                @ ustr ''.txt'')"
    and "cache_path S example_prompt (ustr ''mistral-medium-latest'')
         = Inr (ustr ''.llm_cache'' @ [47]
                @ (ustr ''mistral-medium-latest'' @ [10] @ example_prompt) @ ustr ''.txt'')"
  using assms encodable_ustr_examples(1,2)
  by (simp_all add: cache_path_def path_sep_def plain_hash_def)

lemma services_simps:
  "os_platform example_services = Posix" "sha256_hex example_services = plain_hash"
  "os_platform crlf_services = Posix" "sha256_hex crlf_services = plain_hash"
  "os_platform numbered_services = Posix" "sha256_hex numbered_services = plain_hash"
  "os_platform changing_services = Posix" "sha256_hex changing_services = plain_hash"
  by (simp_all add: example_services_def crlf_services_def numbered_services_def
      changing_services_def)

lemma api_examples:
  "api example_services k (ustr ''gpt-4o-mini'') example_prompt = Inl GenerationError"
  "api example_services k (ustr ''gpt-4o'') example_prompt = Inr (ustr ''{}'')"
  "api crlf_services k (ustr ''mistral-medium-latest'') example_prompt = Inr crlf_text"
  "api crlf_services k (ustr ''gpt-4o-mini'') example_prompt = Inl GenerationError"
  "api crlf_services k (ustr ''gpt-4o'') example_prompt = Inr crlf_text"
  "api numbered_services 0 (ustr ''mistral-medium-latest'') example_prompt = Inr (ustr ''first'')"
  "api numbered_services (Suc 0) (ustr ''mistral-medium-latest'') example_prompt
   = Inr (ustr ''other'')"
  "api changing_services k (ustr ''gpt-4o-mini'') example_prompt = Inl GenerationError"
  "api changing_services (Suc 0) (ustr ''gpt-4o'') example_prompt = Inr (ustr ''first'')"
  "api changing_services (Suc (Suc (Suc 0))) (ustr ''gpt-4o'') example_prompt
   = Inr (ustr ''other'')"
  by (simp_all add: example_services_def crlf_services_def numbered_services_def
      changing_services_def fallback_only_api_def scripted_api_def always_crlf_def
      numbered_text_def first_then_other_def ustr_def)

lemma world_simps:
  "files fresh_world p = None" "writable fresh_world p" "calls fresh_world = []"
  "files readonly_world p = None" "\<not> writable readonly_world p" "calls readonly_world = []"
  by (simp_all add: fresh_world_def readonly_world_def no_file_def any_path_def no_path_def)

lemma fallback_not_empty: "ustr ''gpt-4o'' \<noteq> []"
  by (simp add: ustr_def)


lemma example_key_model:
  "key_model example_client = ustr ''gpt-4o-mini''"
  "key_model mistral_client = ustr ''mistral-medium-latest''"
  by (simp_all add: key_model_def example_client_def mistral_client_def)

lemma no_cr_examples: "13 \<notin> set (ustr ''{}'')" "13 \<notin> set (ustr ''first'')"
  by (simp_all add: ustr_def)







lemma surrogate_simps:
  "os_platform surrogate_services = Posix" "sha256_hex surrogate_services = plain_hash"
  "api surrogate_services k (ustr ''mistral-medium-latest'') example_prompt = Inr surrogate_text"
  "api surrogate_services k (ustr ''gpt-4o-mini'') example_prompt = Inl GenerationError"
  "api surrogate_services k (ustr ''gpt-4o'') example_prompt = Inr surrogate_text"
  "\<not> encodable surrogate_text"
  by (simp_all add: surrogate_services_def scripted_api_def always_surrogate_def
      surrogate_text_def encodable_def ustr_def)

lemma cache_set_unencodable:
  assumes "cache_path S p m = Inr path" and "writable w path" and "\<not> encodable t"
  shows "files (cache_set S w p m t) path = Some (Readable [])"
  using assms by (simp add: cache_set_def)




lemma cache_get_None_path:
  "cache_get S w p m = Inr None \<Longrightarrow>
   cache_path S p m
   = Inr (ustr ''.llm_cache'' @ path_sep (os_platform S) @ sha256_hex S (m @ [10] @ p)
          @ ustr ''.txt'')"
  by (auto simp: cache_get_def cache_path_def split: if_splits)

text \<open>
  C10 (amended). On the OpenAI backend with a fallback model, when nothing is cached for
  the prompt, the call to the primary model fails and the call to the fallback model
  returns a text, \<open>generate\<close> returns that text and hands it to \<open>_cache_set\<close> under the
  key of the primary model: the file named by the hash of the primary model, a line
  feed and the prompt. When that file can be written and the text can be encoded, the
  file holds the text and no other file changes. From every later state in which the
  file holds it, and when the text holds no carriage return, \<open>generate\<close> with the same
  prompt returns the fallback's text and leaves the state as it is.
\<close>

theorem fallback_cached_under_primary:
  assumes "fallback_model \<noteq> []"
    and "cache_get S w prompt primary_model = Inr None"
    and "api S (length (calls w)) primary_model prompt = Inl e"
    and "api S (Suc (length (calls w))) fallback_model prompt = Inr text"
  shows "generate S (OpenAI primary_model fallback_model) prompt w
           = (Inr text,
              cache_set S
                (w\<lparr>calls := calls w @ [(primary_model, prompt), (fallback_model, prompt)]\<rparr>)
                prompt primary_model text)
       \<and> cache_path S prompt primary_model
           = Inr (ustr ''.llm_cache'' @ path_sep (os_platform S)
                  @ sha256_hex S (primary_model @ [10] @ prompt) @ ustr ''.txt'')
       \<and> (writable w (ustr ''.llm_cache'' @ path_sep (os_platform S)
                        @ sha256_hex S (primary_model @ [10] @ prompt) @ ustr ''.txt'')
            \<and> encodable text \<longrightarrow>
             files (snd (generate S (OpenAI primary_model fallback_model) prompt w))
             = (files w)
                 (ustr ''.llm_cache'' @ path_sep (os_platform S)
                    @ sha256_hex S (primary_model @ [10] @ prompt) @ ustr ''.txt''
                  \<mapsto> Readable (write_newlines (os_platform S) text)))
       \<and> (\<forall>w'. files w' (ustr ''.llm_cache'' @ path_sep (os_platform S)
                          @ sha256_hex S (primary_model @ [10] @ prompt) @ ustr ''.txt'')
                  = Some (Readable (write_newlines (os_platform S) text))
                \<and> 13 \<notin> set text \<longrightarrow>
             generate S (OpenAI primary_model fallback_model) prompt w' = (Inr text, w'))"
proof -
  let ?path = "ustr ''.llm_cache'' @ path_sep (os_platform S)
                 @ sha256_hex S (primary_model @ [10] @ prompt) @ ustr ''.txt''"
  let ?c = "OpenAI primary_model fallback_model"
  have p: "cache_path S prompt primary_model = Inr ?path"
    by (rule cache_get_None_path [OF assms(2)])
  have k: "key_model ?c = primary_model"
    by (simp add: key_model_def)
  have g: "generate S ?c prompt w
             = (Inr text,
                cache_set S
                  (w\<lparr>calls := calls w @ [(primary_model, prompt), (fallback_model, prompt)]\<rparr>)
                  prompt primary_model text)"
    by (rule generate_miss_fallback [OF assms])
  have st: "writable w ?path \<and> encodable text \<longrightarrow>
              files (snd (generate S ?c prompt w))
              = (files w)(?path \<mapsto> Readable (write_newlines (os_platform S) text))"
    unfolding g snd_conv using cache_set_written [OF p, of _ "text"] by simp
  have later: "\<forall>w'. files w' ?path = Some (Readable (write_newlines (os_platform S) text))
                    \<and> 13 \<notin> set text \<longrightarrow>
                 generate S ?c prompt w' = (Inr text, w')"
  proof (intro allI impI)
    fix w' :: world
    assume h: "files w' ?path = Some (Readable (write_newlines (os_platform S) text))
               \<and> 13 \<notin> set text"
    then have "cache_get S w' prompt primary_model = Inr (Some text)"
      using cache_get_hit [OF p, of w'] by (simp add: read_write_newlines)
    then show "generate S ?c prompt w' = (Inr text, w')"
      using generate_cached [of S w' prompt ?c "text"] k by simp
  qed
  from g p st later show ?thesis
    by (intro conjI)
qed

text \<open>The theorem at the example client over an empty cache that can be written.\<close>

theorem fallback_cached_under_primary_witness:
  "ustr ''gpt-4o'' \<noteq> []
   \<and> cache_get example_services fresh_world example_prompt (ustr ''gpt-4o-mini'') = Inr None
   \<and> api example_services (length (calls fresh_world)) (ustr ''gpt-4o-mini'') example_prompt
     = Inl GenerationError
   \<and> api example_services (Suc (length (calls fresh_world))) (ustr ''gpt-4o'') example_prompt
     = Inr (ustr ''{}'')
   \<and> fst (generate example_services (OpenAI (ustr ''gpt-4o-mini'') (ustr ''gpt-4o''))
            example_prompt fresh_world) = Inr (ustr ''{}'')
   \<and> files (snd (generate example_services (OpenAI (ustr ''gpt-4o-mini'') (ustr ''gpt-4o''))
                    example_prompt fresh_world))
        (ustr ''.llm_cache'' @ [47] @ (ustr ''gpt-4o-mini'' @ [10] @ example_prompt) @ ustr ''.txt'')
     = Some (Readable (ustr ''{}''))
   \<and> generate example_services (OpenAI (ustr ''gpt-4o-mini'') (ustr ''gpt-4o'')) example_prompt
       (snd (generate example_services (OpenAI (ustr ''gpt-4o-mini'') (ustr ''gpt-4o''))
               example_prompt fresh_world))
     = (Inr (ustr ''{}''),
        snd (generate example_services (OpenAI (ustr ''gpt-4o-mini'') (ustr ''gpt-4o''))
               example_prompt fresh_world))"
proof -
  let ?c = "OpenAI (ustr ''gpt-4o-mini'') (ustr ''gpt-4o'')"
  let ?w1 = "snd (generate example_services ?c example_prompt fresh_world)"
  let ?path = "ustr ''.llm_cache'' @ [47] @ (ustr ''gpt-4o-mini'' @ [10] @ example_prompt)
                 @ ustr ''.txt''"
  have g: "cache_get example_services fresh_world example_prompt (ustr ''gpt-4o-mini'') = Inr None"
    by (rule cache_get_missing [OF example_paths(1) world_simps(1)]) (rule services_simps)+
  have a1: "api example_services (length (calls fresh_world)) (ustr ''gpt-4o-mini'') example_prompt
            = Inl GenerationError"
    by (rule api_examples)
  have a2: "api example_services (Suc (length (calls fresh_world))) (ustr ''gpt-4o'') example_prompt
            = Inr (ustr ''{}'')"
    by (rule api_examples)
  note t = fallback_cached_under_primary [OF fallback_not_empty g a1 a2]
  have ps: "path_sep (os_platform example_services) = [47]"
    by (simp add: services_simps path_sep_def)
  have hs: "sha256_hex example_services t = t" for t
    by (simp add: services_simps plain_hash_def)
  have wn: "write_newlines (os_platform example_services) (ustr ''{}'') = ustr ''{}''"
    by (simp add: services_simps write_newlines_def linesep_def ustr_def)
  from t [THEN conjunct1] have r: "fst (generate example_services ?c example_prompt fresh_world)
                                   = Inr (ustr ''{}'')"
    by simp
  from t [THEN conjunct2, THEN conjunct2, THEN conjunct1]
  have f: "files ?w1 = (files fresh_world)(?path \<mapsto> Readable (ustr ''{}''))"
    by (simp add: ps hs wn world_simps encodable_ustr_examples)
  then have f1: "files ?w1 ?path = Some (Readable (ustr ''{}''))"
    by simp
  from t [THEN conjunct2, THEN conjunct2, THEN conjunct2]
  have "files ?w1 ?path = Some (Readable (ustr ''{}'')) \<and> 13 \<notin> set (ustr ''{}'') \<longrightarrow>
          generate example_services ?c example_prompt ?w1 = (Inr (ustr ''{}''), ?w1)"
    by (simp add: ps hs wn)
  with f1 have l: "generate example_services ?c example_prompt ?w1 = (Inr (ustr ''{}''), ?w1)"
    by (simp add: no_cr_examples)
  from fallback_not_empty g a1 a2 r f1 l show ?thesis
    by (intro conjI)
qed

lemma changing_first_call:
  "generate changing_services example_client example_prompt readonly_world
   = (Inr (ustr ''first''),
      readonly_world\<lparr>calls := [(ustr ''gpt-4o-mini'', example_prompt),
                                 (ustr ''gpt-4o'', example_prompt)]\<rparr>)"
proof -
  have p: "cache_path changing_services example_prompt (ustr ''gpt-4o-mini'')
           = Inr (ustr ''.llm_cache'' @ [47] @ (ustr ''gpt-4o-mini'' @ [10] @ example_prompt)
                  @ ustr ''.txt'')"
    by (rule example_paths(1)) (rule services_simps)+
  have g: "cache_get changing_services readonly_world example_prompt (ustr ''gpt-4o-mini'')
           = Inr None"
    by (rule cache_get_missing [OF p world_simps(4)])
  have u: "cache_set changing_services
             (readonly_world\<lparr>calls := [(ustr ''gpt-4o-mini'', example_prompt),
                                        (ustr ''gpt-4o'', example_prompt)]\<rparr>)
             example_prompt (ustr ''gpt-4o-mini'') (ustr ''first'')
           = readonly_world\<lparr>calls := [(ustr ''gpt-4o-mini'', example_prompt),
                                       (ustr ''gpt-4o'', example_prompt)]\<rparr>"
    by (rule cache_set_unwritable [OF p]) (simp add: world_simps)
  have a1: "api changing_services (length (calls readonly_world)) (ustr ''gpt-4o-mini'')
              example_prompt = Inl GenerationError"
    by (rule api_examples)
  have a2: "api changing_services (Suc (length (calls readonly_world))) (ustr ''gpt-4o'')
              example_prompt = Inr (ustr ''first'')"
    by (simp add: api_examples world_simps)
  show ?thesis
    unfolding example_client_def
    using generate_miss_fallback [OF fallback_not_empty g a1 a2]
    by (simp add: world_simps u)
qed

lemma changing_second_call:
  "fst (generate changing_services example_client example_prompt
          (readonly_world\<lparr>calls := [(ustr ''gpt-4o-mini'', example_prompt),
                                     (ustr ''gpt-4o'', example_prompt)]\<rparr>))
   = Inr (ustr ''other'')"
proof -
  let ?w = "readonly_world\<lparr>calls := [(ustr ''gpt-4o-mini'', example_prompt),
                                     (ustr ''gpt-4o'', example_prompt)]\<rparr>"
  have p: "cache_path changing_services example_prompt (ustr ''gpt-4o-mini'')
           = Inr (ustr ''.llm_cache'' @ [47] @ (ustr ''gpt-4o-mini'' @ [10] @ example_prompt)
                  @ ustr ''.txt'')"
    by (rule example_paths(1)) (rule services_simps)+
  have g: "cache_get changing_services ?w example_prompt (ustr ''gpt-4o-mini'') = Inr None"
    by (rule cache_get_missing [OF p]) (simp add: world_simps)
  have a1: "api changing_services (length (calls ?w)) (ustr ''gpt-4o-mini'')
              example_prompt = Inl GenerationError"
    by (rule api_examples)
  have a2: "api changing_services (Suc (length (calls ?w))) (ustr ''gpt-4o'')
              example_prompt = Inr (ustr ''other'')"
    using api_examples(10) by simp
  show ?thesis
    unfolding example_client_def
    using generate_miss_fallback [OF fallback_not_empty g a1 a2] by simp
qed

lemma crlf_fallback_first_call:
  "generate crlf_services example_client example_prompt fresh_world
   = (Inr crlf_text,
      cache_set crlf_services
        (fresh_world\<lparr>calls := [(ustr ''gpt-4o-mini'', example_prompt),
                               (ustr ''gpt-4o'', example_prompt)]\<rparr>)
        example_prompt (ustr ''gpt-4o-mini'') crlf_text)"
proof -
  have g: "cache_get crlf_services fresh_world example_prompt (ustr ''gpt-4o-mini'') = Inr None"
    by (rule cache_get_missing [OF example_paths(1) world_simps(1)]) (rule services_simps)+
  have a1: "api crlf_services (length (calls fresh_world)) (ustr ''gpt-4o-mini'')
              example_prompt = Inl GenerationError"
    by (rule api_examples)
  have a2: "api crlf_services (Suc (length (calls fresh_world))) (ustr ''gpt-4o'')
              example_prompt = Inr crlf_text"
    by (rule api_examples)
  show ?thesis
    unfolding example_client_def
    using generate_miss_fallback [OF fallback_not_empty g a1 a2]
    by (simp add: world_simps)
qed

lemma crlf_fallback_second_call:
  "fst (generate crlf_services example_client example_prompt
          (snd (generate crlf_services example_client example_prompt fresh_world)))
   = Inr [97, 10, 98]"
proof -
  let ?path = "ustr ''.llm_cache'' @ [47] @ (ustr ''gpt-4o-mini'' @ [10] @ example_prompt)
                 @ ustr ''.txt''"
  let ?w1 = "snd (generate crlf_services example_client example_prompt fresh_world)"
  have p: "cache_path crlf_services example_prompt (ustr ''gpt-4o-mini'') = Inr ?path"
    by (rule example_paths(1)) (rule services_simps)+
  have "files ?w1 = (files (fresh_world\<lparr>calls := [(ustr ''gpt-4o-mini'', example_prompt),
                               (ustr ''gpt-4o'', example_prompt)]\<rparr>))
                      (?path \<mapsto> Readable (write_newlines (os_platform crlf_services) crlf_text))"
    unfolding crlf_fallback_first_call snd_conv
    by (rule cache_set_written [OF p]) (simp_all add: world_simps encodable_ustr_examples)
  then have "files ?w1 ?path = Some (Readable crlf_text)"
    by (simp add: services_simps write_newlines_def linesep_def crlf_text_def)
  from cache_get_hit [OF p this]
  have "cache_get crlf_services ?w1 example_prompt (key_model example_client)
        = Inr (Some [97, 10, 98])"
    by (simp add: example_key_model crlf_text_def)
  then show ?thesis
    by (simp add: generate_cached)
qed

lemma surrogate_fallback_first_call:
  "generate surrogate_services example_client example_prompt fresh_world
   = (Inr surrogate_text,
      cache_set surrogate_services
        (fresh_world\<lparr>calls := [(ustr ''gpt-4o-mini'', example_prompt),
                               (ustr ''gpt-4o'', example_prompt)]\<rparr>)
        example_prompt (ustr ''gpt-4o-mini'') surrogate_text)"
proof -
  have g: "cache_get surrogate_services fresh_world example_prompt (ustr ''gpt-4o-mini'') = Inr None"
    by (rule cache_get_missing [OF example_paths(1) world_simps(1)]) (rule surrogate_simps)+
  have a1: "api surrogate_services (length (calls fresh_world)) (ustr ''gpt-4o-mini'')
              example_prompt = Inl GenerationError"
    by (rule surrogate_simps)
  have a2: "api surrogate_services (Suc (length (calls fresh_world))) (ustr ''gpt-4o'')
              example_prompt = Inr surrogate_text"
    by (rule surrogate_simps)
  show ?thesis
    unfolding example_client_def
    using generate_miss_fallback [OF fallback_not_empty g a1 a2]
    by (simp add: world_simps)
qed

lemma surrogate_fallback_second_call:
  "fst (generate surrogate_services example_client example_prompt
          (snd (generate surrogate_services example_client example_prompt fresh_world)))
   = Inr []"
proof -
  let ?path = "ustr ''.llm_cache'' @ [47] @ (ustr ''gpt-4o-mini'' @ [10] @ example_prompt)
                 @ ustr ''.txt''"
  let ?w1 = "snd (generate surrogate_services example_client example_prompt fresh_world)"
  have p: "cache_path surrogate_services example_prompt (ustr ''gpt-4o-mini'') = Inr ?path"
    by (rule example_paths(1)) (rule surrogate_simps)+
  have "files ?w1 ?path = Some (Readable [])"
    unfolding surrogate_fallback_first_call snd_conv
    by (rule cache_set_unencodable [OF p]) (simp_all add: world_simps surrogate_simps)
  from cache_get_hit [OF p this]
  have "cache_get surrogate_services ?w1 example_prompt (key_model example_client)
        = Inr (Some [])"
    by (simp add: example_key_model)
  then show ?thesis
    by (simp add: generate_cached)
qed

text \<open>
  C10 as stated fails: over a cache directory that cannot be written nothing is cached,
  and a later call returns what the fallback answers then; a fallback text with CR LF
  comes back from the cache with a line feed; and a fallback text that UTF-8 cannot
  encode leaves an empty cache file, so that a later call returns the empty text.
\<close>

theorem fallback_text_not_kept:
  "fst (generate changing_services example_client example_prompt readonly_world)
     = Inr (ustr ''first'')
   \<and> fst (generate changing_services example_client example_prompt
           (snd (generate changing_services example_client example_prompt readonly_world)))
     = Inr (ustr ''other'')
   \<and> fst (generate crlf_services example_client example_prompt fresh_world)
     = Inr [97, 13, 10, 98]
   \<and> fst (generate crlf_services example_client example_prompt
           (snd (generate crlf_services example_client example_prompt fresh_world)))
     = Inr [97, 10, 98]
   \<and> fst (generate surrogate_services example_client example_prompt fresh_world)
     = Inr [55357]
   \<and> fst (generate surrogate_services example_client example_prompt
           (snd (generate surrogate_services example_client example_prompt fresh_world)))
     = Inr []"
proof -
  have c1: "fst (generate changing_services example_client example_prompt readonly_world)
            = Inr (ustr ''first'')"
    by (simp add: changing_first_call)
  have c2: "fst (generate changing_services example_client example_prompt
                   (snd (generate changing_services example_client example_prompt readonly_world)))
            = Inr (ustr ''other'')"
    unfolding changing_first_call snd_conv by (rule changing_second_call)
  have c3: "fst (generate crlf_services example_client example_prompt fresh_world)
            = Inr [97, 13, 10, 98]"
    by (simp add: crlf_fallback_first_call crlf_text_def)
  have c5: "fst (generate surrogate_services example_client example_prompt fresh_world)
            = Inr [55357]"
    by (simp add: surrogate_fallback_first_call surrogate_text_def)
  from c1 c2 c3 crlf_fallback_second_call c5 surrogate_fallback_second_call show ?thesis
    by (intro conjI)
qed

end
